theory Spec2Isabelle
  imports Main "HOL-Library.Sublist"
begin

section \<open>Values, errors and effects of the scripts\<close>

text \<open>
  The scripts of \<^verbatim>\<open>.github/scripts/shared-utils.js\<close> are JavaScript. Their model is a
  shallow embedding: a thrown error is the \<open>Inl\<close> of a sum, a value that may be
  \<^verbatim>\<open>null\<close> or \<^verbatim>\<open>undefined\<close> is an \<open>option\<close> (\<open>None\<close> stands for either of the two
  absent values of JavaScript, which every caller in the repository tests with
  \<^verbatim>\<open>!x\<close>), and the effects (writing to the action log, waiting, calling the remote
  service) are threaded through a state.

  Text outside ASCII (the pictographs that open the log lines) is given by its UTF-8
  bytes. Numbers are the integers: \<^verbatim>\<open>maxRetries\<close>, \<^verbatim>\<open>delay\<close> and an issue number are
  whole numbers in every call of the repository.
\<close>

datatype error = Error string | TypeError string | SyntaxError string

fun message :: "error \<Rightarrow> string" where
  "message (Error m) = m"
| "message (TypeError m) = m"
| "message (SyntaxError m) = m"

datatype event = Info string | Warning string | Timeout int

record 'w run =
  world :: 'w
  out :: "event list"

definition core_info :: "string \<Rightarrow> 'w run \<Rightarrow> 'w run" where
  "core_info msg s = s\<lparr>out := out s @ [Info msg]\<rparr>"

definition core_warning :: "string \<Rightarrow> 'w run \<Rightarrow> 'w run" where
  "core_warning msg s = s\<lparr>out := out s @ [Warning msg]\<rparr>"

definition setTimeout :: "int \<Rightarrow> 'w run \<Rightarrow> 'w run" where
  "setTimeout ms s = s\<lparr>out := out s @ [Timeout ms]\<rparr>"

definition check_mark :: string where
  "check_mark = [CHR 0xE2, CHR 0x9C, CHR 0x85]"

definition warning_sign :: string where
  "warning_sign = [CHR 0xE2, CHR 0x9A, CHR 0xA0, CHR 0xEF, CHR 0xB8, CHR 0x8F]"

definition stopwatch :: string where
  "stopwatch = [CHR 0xE2, CHR 0x8F, CHR 0xB1, CHR 0xEF, CHR 0xB8, CHR 0x8F]"

definition information_sign :: string where
  "information_sign = [CHR 0xE2, CHR 0x84, CHR 0xB9, CHR 0xEF, CHR 0xB8, CHR 0x8F]"

text \<open>
  A number inside a template literal: its decimal digits, with a sign. (JavaScript prints
  a number from \<open>10\<^sup>2\<^sup>1\<close> on with an exponent; the model is that of the numbers below.)
\<close>

definition digit_char :: "nat \<Rightarrow> char" where
  "digit_char d = ''0123456789'' ! d"

fun show_nat :: "nat \<Rightarrow> string" where
  "show_nat n = (if n < 10 then [digit_char n] else show_nat (n div 10) @ [digit_char (n mod 10)])"

definition show_int :: "int \<Rightarrow> string" where
  "show_int i = (if i < 0 then CHR ''-'' # show_nat (nat (- i)) else show_nat (nat i))"

section \<open>withRetry\<close>

text \<open>
  \<^verbatim>\<open>const { maxRetries = 3, delay = 1000, operation = 'operation' } = options\<close>: a
  property that is \<^verbatim>\<open>undefined\<close> takes its default.
\<close>

record retry_options =
  maxRetries :: "int option"
  delay :: "int option"
  operation :: "string option"

definition no_options :: retry_options where
  "no_options = \<lparr>maxRetries = None, delay = None, operation = None\<rparr>"

definition failed_on_attempt :: "string \<Rightarrow> int \<Rightarrow> int \<Rightarrow> error \<Rightarrow> string" where
  "failed_on_attempt opn attempt maxr err =
     warning_sign @ '' '' @ opn @ '' failed on attempt '' @ show_int attempt @ ''/'' @
     show_int maxr @ '': '' @ message err"

definition succeeded_on_attempt :: "string \<Rightarrow> int \<Rightarrow> string" where
  "succeeded_on_attempt opn attempt =
     check_mark @ '' '' @ opn @ '' succeeded on attempt '' @ show_int attempt"

definition retrying_in :: "int \<Rightarrow> string" where
  "retrying_in ms = stopwatch @ '' Retrying in '' @ show_int ms @ ''ms...''"

definition failed_after :: "string \<Rightarrow> int \<Rightarrow> error \<Rightarrow> string" where
  "failed_after opn maxr lastError =
     opn @ '' failed after '' @ show_int maxr @ '' attempts. Last error: '' @ message lastError"

text \<open>
  The \<^verbatim>\<open>for\<close> loop of \<^verbatim>\<open>withRetry\<close>, from \<^verbatim>\<open>attempt\<close> on, and the \<^verbatim>\<open>throw\<close> after it.
  The operation \<open>fn\<close> acts on the remote world and either returns or throws; the log
  and the waits are \<^verbatim>\<open>withRetry\<close>'s own. Reading \<^verbatim>\<open>lastError.message\<close> when
  \<^verbatim>\<open>lastError\<close> was never assigned throws a \<^verbatim>\<open>TypeError\<close>.
\<close>

function withRetry_loop ::
  "('w \<Rightarrow> (error + 'a) \<times> 'w) \<Rightarrow> int \<Rightarrow> int \<Rightarrow> string \<Rightarrow> int \<Rightarrow> error option \<Rightarrow> 'w run
     \<Rightarrow> (error + 'a) \<times> 'w run" where
  "withRetry_loop fn maxr dly opn attempt lastError s =
     (if attempt \<le> maxr then
        (case fn (world s) of
           (Inr result, w) \<Rightarrow>
             (Inr result,
              if attempt > 1 then core_info (succeeded_on_attempt opn attempt) (s\<lparr>world := w\<rparr>)
              else s\<lparr>world := w\<rparr>)
         | (Inl err, w) \<Rightarrow>
             (let s1 = core_warning (failed_on_attempt opn attempt maxr err) (s\<lparr>world := w\<rparr>);
                  s2 = (if attempt < maxr
                        then setTimeout dly (core_info (retrying_in dly) s1) else s1)
              in withRetry_loop fn maxr dly opn (attempt + 1) (Some err) s2))
      else
        (case lastError of
           None \<Rightarrow> (Inl (TypeError ''Cannot read properties of undefined (reading 'message')''), s)
         | Some e \<Rightarrow> (Inl (Error (failed_after opn maxr e)), s)))"
  by pat_completeness auto
termination
  by (relation "measure (\<lambda>(fn, maxr, dly, opn, attempt, lastError, s). nat (maxr + 1 - attempt))")
     auto

definition maxRetries_of :: "retry_options \<Rightarrow> int" where
  "maxRetries_of options = (case maxRetries options of None \<Rightarrow> 3 | Some m \<Rightarrow> m)"

definition delay_of :: "retry_options \<Rightarrow> int" where
  "delay_of options = (case delay options of None \<Rightarrow> 1000 | Some d \<Rightarrow> d)"

definition operation_of :: "retry_options \<Rightarrow> string" where
  "operation_of options = (case operation options of None \<Rightarrow> ''operation'' | Some l \<Rightarrow> l)"

definition withRetry ::
  "('w \<Rightarrow> (error + 'a) \<times> 'w) \<Rightarrow> retry_options \<Rightarrow> 'w run \<Rightarrow> (error + 'a) \<times> 'w run" where
  "withRetry fn options s =
     withRetry_loop fn (maxRetries_of options) (delay_of options) (operation_of options) 1 None s"

text \<open>A test spy: the operation together with the number of times it was invoked.\<close>

definition spy :: "('w \<Rightarrow> (error + 'a) \<times> 'w) \<Rightarrow> nat \<times> 'w \<Rightarrow> (error + 'a) \<times> (nat \<times> 'w)" where
  "spy fn = (\<lambda>(n, w). case fn w of (r, w') \<Rightarrow> (r, (Suc n, w')))"


section \<open>The remote service\<close>

text \<open>
  What the three queries of \<^verbatim>\<open>GRAPHQL_QUERIES\<close> that the locators and the resolver send
  return. A field node is a single-select field (\<^verbatim>\<open>id\<close>, \<^verbatim>\<open>name\<close>, \<^verbatim>\<open>options\<close>), a plain
  field (\<^verbatim>\<open>id\<close>, \<^verbatim>\<open>name\<close>, \<^verbatim>\<open>dataType\<close>), or a node of another type, for which the
  query selects nothing. A node that is not of the type the query's fragment names
  comes back without the fragment's properties.
\<close>

record field_option =
  option_id :: string
  option_name :: string

datatype field_node =
  ProjectV2SingleSelectField string string "field_option list"
| ProjectV2Field string string string
| OtherFieldNode

fun node_id :: "field_node \<Rightarrow> string option" where
  "node_id (ProjectV2SingleSelectField i n os) = Some i"
| "node_id (ProjectV2Field i n d) = Some i"
| "node_id OtherFieldNode = None"

fun node_name :: "field_node \<Rightarrow> string option" where
  "node_name (ProjectV2SingleSelectField i n os) = Some n"
| "node_name (ProjectV2Field i n d) = Some n"
| "node_name OtherFieldNode = None"

fun node_options :: "field_node \<Rightarrow> field_option list option" where
  "node_options (ProjectV2SingleSelectField i n os) = Some os"
| "node_options (ProjectV2Field i n d) = None"
| "node_options OtherFieldNode = None"

record project_node =
  fields_nodes :: "field_node list option"

record fields_result =
  node :: "project_node option"

text \<open>A membership: \<^verbatim>\<open>item.id\<close> and \<^verbatim>\<open>item.project.id\<close>.\<close>

record project_item =
  item_id :: string
  project_id :: string

record issue_items =
  issue_nodes :: "project_item list option"

record issue_node =
  issue_projectItems :: "issue_items option"

record issue_result =
  issue :: "issue_node option"

record 'c page_info =
  hasNextPage :: bool
  endCursor :: "'c option"

record 'c pr_items =
  pageInfo :: "'c page_info"
  nodes :: "project_item list"

record 'c pr_node =
  projectItems :: "'c pr_items option"

record 'c pr_result =
  pullRequest :: "'c pr_node option"

text \<open>
  \<^verbatim>\<open>octokit.graphql\<close> with each of the three queries. The first argument is the
  \<^verbatim>\<open>first:\<close> of the query's text, the others are its variables; a cursor is opaque to
  the scripts, so its type is a parameter.
\<close>

record ('w, 'c) octokit =
  graphql_PROJECT_FIELDS :: "nat \<Rightarrow> string \<Rightarrow> 'w \<Rightarrow> (error + fields_result) \<times> 'w"
  graphql_ISSUE_PROJECT_ITEMS :: "nat \<Rightarrow> string \<Rightarrow> 'w \<Rightarrow> (error + issue_result) \<times> 'w"
  graphql_PR_PROJECT_ITEMS_PAGINATED ::
    "nat \<Rightarrow> string \<Rightarrow> 'c option \<Rightarrow> 'w \<Rightarrow> (error + 'c pr_result) \<times> 'w"

definition PROJECT_FIELDS_first :: nat where
  "PROJECT_FIELDS_first = 50"

definition ISSUE_PROJECT_ITEMS_first :: nat where
  "ISSUE_PROJECT_ITEMS_first = 20"

definition PR_PROJECT_ITEMS_PAGINATED_first :: nat where
  "PR_PROJECT_ITEMS_PAGINATED_first = 100"

definition labelled :: "string \<Rightarrow> retry_options" where
  "labelled l = \<lparr>maxRetries = None, delay = None, operation = Some l\<rparr>"

definition apostrophe :: string where
  "apostrophe = [CHR 0x27]"

section \<open>findProjectFields\<close>

record found_fields =
  fieldId :: "string option"
  optionId :: "string option"
  field :: field_node

definition or_undefined :: "string option \<Rightarrow> string" where
  "or_undefined v = (case v of None \<Rightarrow> ''undefined'' | Some x \<Rightarrow> x)"

definition truthy :: "string option \<Rightarrow> bool" where
  "truthy v = (case v of None \<Rightarrow> False | Some x \<Rightarrow> x \<noteq> [])"

definition field_not_found :: "string \<Rightarrow> string \<Rightarrow> error" where
  "field_not_found fieldName projectId =
     Error (''Field '' @ apostrophe @ fieldName @ apostrophe @ '' not found in project '' @ projectId)"

definition option_not_found :: "string option \<Rightarrow> string \<Rightarrow> error" where
  "option_not_found optionName fieldName =
     Error (''Option '' @ apostrophe @ or_undefined optionName @ apostrophe @
            '' not found in field '' @ apostrophe @ fieldName @ apostrophe)"

definition found_field_message :: "string \<Rightarrow> field_node \<Rightarrow> string option \<Rightarrow> string option \<Rightarrow> string" where
  "found_field_message fieldName fld optionName optId =
     check_mark @ '' Found field '' @ apostrophe @ fieldName @ apostrophe @ '' (ID: '' @
     or_undefined (node_id fld) @ '')'' @
     (if truthy optId
      then '' with option '' @ apostrophe @ or_undefined optionName @ apostrophe @ '' (ID: '' @
           or_undefined optId @ '')''
      else [])"

text \<open>
  The part of \<^verbatim>\<open>findProjectFields\<close> after the fetch: the two \<^verbatim>\<open>find\<close>s, the two
  \<^verbatim>\<open>throw\<close>s and the value returned. \<^verbatim>\<open>optionName && field.options\<close> holds when the
  option name is a non-empty string and the field has the property \<^verbatim>\<open>options\<close>.
\<close>

definition select_field ::
  "field_node list \<Rightarrow> string \<Rightarrow> string \<Rightarrow> string option \<Rightarrow> 'w run
     \<Rightarrow> (error + found_fields) \<times> 'w run" where
  "select_field field_list projectId fieldName optionName s =
     (case List.find (\<lambda>f. node_name f = Some fieldName) field_list of
        None \<Rightarrow> (Inl (field_not_found fieldName projectId), s)
      | Some fld \<Rightarrow>
          (let finish = (\<lambda>optId.
                 (Inr \<lparr>fieldId = node_id fld, optionId = optId, field = fld\<rparr>,
                  core_info (found_field_message fieldName fld optionName optId) s))
           in if truthy optionName \<and> node_options fld \<noteq> None then
                (case List.find (\<lambda>opt. Some (option_name opt) = optionName)
                        (the (node_options fld)) of
                   None \<Rightarrow> (Inl (option_not_found optionName fieldName), s)
                 | Some opt \<Rightarrow> finish (Some (option_id opt)))
              else finish None))"

definition findProjectFields ::
  "('w, 'c) octokit \<Rightarrow> string \<Rightarrow> string \<Rightarrow> string option \<Rightarrow> 'w run
     \<Rightarrow> (error + found_fields) \<times> 'w run" where
  "findProjectFields octokit projectId fieldName optionName s =
     (case withRetry (graphql_PROJECT_FIELDS octokit PROJECT_FIELDS_first projectId)
             (labelled ''finding project fields'') s of
        (Inl e, s1) \<Rightarrow> (Inl e, s1)
      | (Inr result, s1) \<Rightarrow>
          (case node result of
             None \<Rightarrow> (Inl (TypeError ''Cannot read properties of null (reading 'fields')''), s1)
           | Some n \<Rightarrow>
               (case fields_nodes n of
                  None \<Rightarrow>
                    (Inl (TypeError ''Cannot read properties of undefined (reading 'nodes')''), s1)
                | Some field_list \<Rightarrow> select_field field_list projectId fieldName optionName s1)))"


section \<open>findIssueProjectItem and findPRProjectItem\<close>

definition on_board :: "string \<Rightarrow> project_item \<Rightarrow> bool" where
  "on_board projectId projectItem = (project_id projectItem = projectId)"

text \<open>
  The \<^verbatim>\<open>if (item) core.info(...) else core.warning(...)\<close> that ends both locators; the
  two differ in the word \<^verbatim>\<open>issue\<close> or \<^verbatim>\<open>PR\<close> only.
\<close>

definition report_item :: "string \<Rightarrow> string \<Rightarrow> string \<Rightarrow> project_item option \<Rightarrow> 'w run \<Rightarrow> 'w run" where
  "report_item kind nodeId projectId item s =
     (case item of
        Some i \<Rightarrow>
          core_info (check_mark @ '' Found project item '' @ item_id i @ '' for '' @ kind @
                     '' in project '' @ projectId) s
      | None \<Rightarrow>
          core_warning (warning_sign @ '' No project item found for '' @ kind @ '' '' @ nodeId @
                        '' in project '' @ projectId) s)"

definition pr_not_found :: "string \<Rightarrow> string" where
  "pr_not_found prNodeId = warning_sign @ '' PR with node ID '' @ prNodeId @ '' not found''"

text \<open>
  \<^verbatim>\<open>result.issue?.projectItems?.nodes?.find(...)\<close>: each \<^verbatim>\<open>?.\<close> gives \<^verbatim>\<open>undefined\<close>
  when what stands before it is absent.
\<close>

definition findIssueProjectItem ::
  "('w, 'c) octokit \<Rightarrow> string \<Rightarrow> string \<Rightarrow> 'w run \<Rightarrow> (error + project_item option) \<times> 'w run" where
  "findIssueProjectItem octokit issueNodeId projectId s =
     (case withRetry (graphql_ISSUE_PROJECT_ITEMS octokit ISSUE_PROJECT_ITEMS_first issueNodeId)
             (labelled ''finding issue project items'') s of
        (Inl e, s1) \<Rightarrow> (Inl e, s1)
      | (Inr result, s1) \<Rightarrow>
          (let item = Option.bind (Option.bind (Option.bind (issue result) issue_projectItems)
                        issue_nodes) (List.find (on_board projectId))
           in (Inr item, report_item ''issue'' issueNodeId projectId item s1)))"

text \<open>
  The \<^verbatim>\<open>while (hasNextPage && !projectItem)\<close> of \<^verbatim>\<open>findPRProjectItem\<close> and what follows
  it, from the values the three variables have at the loop's head. Nothing bounds the
  number of pages a service may announce, so the loop is a partial function: \<open>None\<close>
  is the scan that never ends.
\<close>

partial_function (option) findPRProjectItem_loop ::
  "('w, 'c) octokit \<Rightarrow> string \<Rightarrow> string \<Rightarrow> project_item option \<Rightarrow> bool \<Rightarrow> 'c option \<Rightarrow> 'w run
     \<Rightarrow> ((error + project_item option) \<times> 'w run) option" where
  "findPRProjectItem_loop octokit prNodeId projectId projectItem hasNext cursor s =
     (if hasNext \<and> projectItem = None then
        (case withRetry
                (graphql_PR_PROJECT_ITEMS_PAGINATED octokit PR_PROJECT_ITEMS_PAGINATED_first
                   prNodeId cursor)
                (labelled ''finding PR project items'') s of
           (Inl e, s1) \<Rightarrow> Some (Inl e, s1)
         | (Inr result, s1) \<Rightarrow>
             (case pullRequest result of
                None \<Rightarrow>
                  Some (Inr None, core_warning (pr_not_found prNodeId) s1)
              | Some pr \<Rightarrow>
                  (case projectItems pr of
                     None \<Rightarrow>
                       Some (Inl (TypeError
                               ''Cannot read properties of undefined (reading 'nodes')''), s1)
                   | Some items \<Rightarrow>
                       findPRProjectItem_loop octokit prNodeId projectId
                         (List.find (on_board projectId) (nodes items))
                         (hasNextPage (pageInfo items)) (endCursor (pageInfo items)) s1)))
      else
        Some (Inr projectItem, report_item ''PR'' prNodeId projectId projectItem s))"

definition findPRProjectItem ::
  "('w, 'c) octokit \<Rightarrow> string \<Rightarrow> string \<Rightarrow> 'w run
     \<Rightarrow> ((error + project_item option) \<times> 'w run) option" where
  "findPRProjectItem octokit prNodeId projectId s =
     findPRProjectItem_loop octokit prNodeId projectId None True None s"

section \<open>A service that pages\<close>

text \<open>
  A remote service for the properties about pages: it holds the fields of each
  board and the memberships of each content object (none for an identifier that does
  not resolve), answers every query, and serves a list \<^verbatim>\<open>first\<close> entries at a time.
  A cursor is the number of entries before the page it opens. The world also counts the
  queries it has answered.
\<close>

record github =
  project_fields :: "string \<Rightarrow> field_node list option"
  content_items :: "string \<Rightarrow> project_item list option"
  queries :: nat

definition page_of :: "nat \<Rightarrow> nat option \<Rightarrow> project_item list \<Rightarrow> nat pr_items" where
  "page_of first after ms =
     (let start = (case after of None \<Rightarrow> 0 | Some k \<Rightarrow> k);
          page = take first (drop start ms)
      in \<lparr>pageInfo = \<lparr>hasNextPage = start + first < length ms,
                       endCursor = (if page = [] then None else Some (start + length page))\<rparr>,
          nodes = page\<rparr>)"

definition answered :: "github \<Rightarrow> github" where
  "answered w = w\<lparr>queries := Suc (queries w)\<rparr>"

definition github_service :: "(github, nat) octokit" where
  "github_service =
     \<lparr>graphql_PROJECT_FIELDS = (\<lambda>first projectId w.
        (Inr \<lparr>node = map_option (\<lambda>fs. \<lparr>fields_nodes = Some (take first fs)\<rparr>)
                           (project_fields w projectId)\<rparr>, answered w)),
      graphql_ISSUE_PROJECT_ITEMS = (\<lambda>first issueNodeId w.
        (Inr \<lparr>issue = map_option
                 (\<lambda>ms. \<lparr>issue_projectItems = Some \<lparr>issue_nodes = Some (take first ms)\<rparr>\<rparr>)
                 (content_items w issueNodeId)\<rparr>, answered w)),
      graphql_PR_PROJECT_ITEMS_PAGINATED = (\<lambda>first prNodeId after w.
        (Inr \<lparr>pullRequest = map_option (\<lambda>ms. \<lparr>projectItems = Some (page_of first after ms)\<rparr>)
                                  (content_items w prNodeId)\<rparr>, answered w))\<rparr>"

section \<open>extractIssueFromBranch\<close>

subsection \<open>String.prototype.replace with a string pattern\<close>

text \<open>
  \<^verbatim>\<open>subject.replace(pattern, replacement)\<close> with a pattern that is a string replaces the
  first occurrence of the pattern, wherever it stands, and nothing else. (The
  replacement of the script is the empty string, which has no \<^verbatim>\<open>$\<close> pattern.)
\<close>

fun replace_first :: "string \<Rightarrow> string \<Rightarrow> string \<Rightarrow> string" where
  "replace_first [] pat rep = (if pat = [] then rep else [])"
| "replace_first (c # cs) pat rep =
     (if prefix pat (c # cs) then rep @ drop (length pat) (c # cs)
      else c # replace_first cs pat rep)"

definition cleanBranch :: "string \<Rightarrow> string" where
  "cleanBranch branch = replace_first branch ''refs/heads/'' ''''"

subsection \<open>Regular expressions\<close>

text \<open>
  \<^verbatim>\<open>new RegExp(regex)\<close> and \<^verbatim>\<open>String.prototype.match\<close> belong to the JavaScript runtime.
  The script is modelled over any such engine: a pattern either is rejected
  (\<^verbatim>\<open>SyntaxError\<close>) or gives a matcher, which sends a subject to \<^verbatim>\<open>null\<close> or to the
  match array (the matched text, then one entry per capture group, \<^verbatim>\<open>undefined\<close> for a
  group that took no part).

  For the properties that name a pattern, a part of the pattern language is modelled with
  the semantics of ECMAScript: characters, \<^verbatim>\<open>.\<close>, \<^verbatim>\<open>\d\<close>, \<^verbatim>\<open>\w\<close>, escaped
  punctuation, capture groups, \<^verbatim>\<open>|\<close>, and the greedy \<^verbatim>\<open>*\<close>, \<^verbatim>\<open>+\<close>, \<^verbatim>\<open>?\<close>. A matcher
  is a backtracking search: the list of ways a pattern can match at the head of a text,
  best first. A step of the matcher reads one character of the model, a byte; on ASCII
  text that is JavaScript's code unit.
\<close>

type_synonym match_array = "string option list"

type_synonym regexp_engine = "string \<Rightarrow> error + (string \<Rightarrow> match_array option)"

datatype atom = Lit char | Dot | DigitClass | WordClass

datatype re =
  Atom atom
| Empty
| Seq re re
| Alt re re
| Star re
| Opt re
| Group nat re

fun accepts :: "atom \<Rightarrow> char \<Rightarrow> bool" where
  "accepts (Lit c) x = (x = c)"
| "accepts Dot x = (x \<noteq> CHR 0x0A \<and> x \<noteq> CHR 0x0D)"
| "accepts DigitClass x = (x \<in> set ''0123456789'')"
| "accepts WordClass x =
     (x \<in> set ''abcdefghijklmnopqrstuvwxyzABCDEFGHIJKLMNOPQRSTUVWXYZ0123456789_'')"

fun groups_of :: "re \<Rightarrow> nat list" where
  "groups_of (Atom a) = []"
| "groups_of Empty = []"
| "groups_of (Seq a b) = groups_of a @ groups_of b"
| "groups_of (Alt a b) = groups_of a @ groups_of b"
| "groups_of (Star r) = groups_of r"
| "groups_of (Opt r) = groups_of r"
| "groups_of (Group n r) = n # groups_of r"

type_synonym captures = "(nat \<times> string) list"

definition reset :: "re \<Rightarrow> captures \<Rightarrow> captures" where
  "reset r cs = filter (\<lambda>(n, v). n \<notin> set (groups_of r)) cs"

definition capture :: "nat \<Rightarrow> string \<Rightarrow> string \<times> captures \<Rightarrow> string \<times> captures" where
  "capture n s st =
     (case st of (s', cs) \<Rightarrow>
        (s', (n, take (length s - length s') s) # filter (\<lambda>(k, v). k \<noteq> n) cs))"

text \<open>
  An iteration of \<^verbatim>\<open>*\<close> or \<^verbatim>\<open>?\<close> starts with the captures of its body cleared, and an
  iteration that consumes nothing is dropped.
\<close>

function (sequential) matches :: "re \<Rightarrow> string \<times> captures \<Rightarrow> (string \<times> captures) list"
  and iterate :: "re \<Rightarrow> string \<Rightarrow> (string \<times> captures) list \<Rightarrow> (string \<times> captures) list" where
  "matches (Atom a) (s, cs) =
     (case s of [] \<Rightarrow> [] | x # xs \<Rightarrow> if accepts a x then [(xs, cs)] else [])"
| "matches Empty (s, cs) = [(s, cs)]"
| "matches (Seq a b) (s, cs) = concat (map (matches b) (matches a (s, cs)))"
| "matches (Alt a b) (s, cs) = matches a (s, cs) @ matches b (s, cs)"
| "matches (Star r) (s, cs) = iterate r s (matches r (s, reset r cs)) @ [(s, cs)]"
| "matches (Opt r) (s, cs) =
     filter (\<lambda>(s', cs'). length s' < length s) (matches r (s, reset r cs)) @ [(s, cs)]"
| "matches (Group n r) (s, cs) = map (capture n s) (matches r (s, cs))"
| "iterate r s [] = []"
| "iterate r s ((s', cs') # rest) =
     (if length s' < length s then matches (Star r) (s', cs') else []) @ iterate r s rest"
  by pat_completeness auto
termination
  by (relation "inv_image (less_than <*lex*> less_than <*lex*> less_than <*lex*> less_than)
        (\<lambda>x. case x of
           Inl (r, s, cs) \<Rightarrow> (size r, length s, 1::nat, 0::nat)
         | Inr (r, s, xs) \<Rightarrow> (Suc (size r), length s, 0, length xs))")
     auto

text \<open>
  A match without the \<^verbatim>\<open>g\<close> flag: the first position of the subject, from the left,
  at which the pattern matches, and the best match there.
\<close>

fun search :: "re \<Rightarrow> nat \<Rightarrow> string \<Rightarrow> match_array option" where
  "search r n s =
     (case matches r (s, []) of
        (s', cs) # other \<Rightarrow>
          Some (Some (take (length s - length s') s) # map (map_of cs) [1..<Suc n])
      | [] \<Rightarrow> (case s of [] \<Rightarrow> None | x # xs \<Rightarrow> search r n xs))"

datatype token = TAtom atom | TOpen | TClose | TBar | TStar | TPlus | TQuest

fun tokenize :: "string \<Rightarrow> token list option" where
  "tokenize [] = Some []"
| "tokenize (c # cs) =
     (if c = CHR 0x5C then
        (case cs of
           [] \<Rightarrow> None
         | e # es \<Rightarrow>
             if e = CHR ''d'' then map_option ((#) (TAtom DigitClass)) (tokenize es)
             else if e = CHR ''w'' then map_option ((#) (TAtom WordClass)) (tokenize es)
             else if e \<in> set ''^$.*+?()[]{}|/-'' \<or> e = CHR 0x5C
               then map_option ((#) (TAtom (Lit e))) (tokenize es)
             else None)
      else if c = CHR ''('' then
        (case cs of
           [] \<Rightarrow> map_option ((#) TOpen) (tokenize cs)
         | e # es \<Rightarrow> if e = CHR ''?'' then None else map_option ((#) TOpen) (tokenize cs))
      else if c = CHR '')'' then map_option ((#) TClose) (tokenize cs)
      else if c = CHR ''|'' then map_option ((#) TBar) (tokenize cs)
      else if c = CHR ''*'' then map_option ((#) TStar) (tokenize cs)
      else if c = CHR ''+'' then map_option ((#) TPlus) (tokenize cs)
      else if c = CHR ''?'' then map_option ((#) TQuest) (tokenize cs)
      else if c = CHR ''.'' then map_option ((#) (TAtom Dot)) (tokenize cs)
      else if c \<in> set ''^$[]{}'' then None
      else map_option ((#) (TAtom (Lit c))) (tokenize cs))"

text \<open>
  The parser keeps, for the group it is in, the alternatives it has finished and the
  terms of the one it is reading, both latest first, and a stack of the same for the
  groups around it. Groups are numbered by their opening parenthesis, from 1. The flag
  says that the last term already has a quantifier.
\<close>

type_synonym frame = "nat \<times> re list \<times> re list"

fun sequence :: "re list \<Rightarrow> re" where
  "sequence [] = Empty"
| "sequence [r] = r"
| "sequence (r # rs) = Seq (sequence rs) r"

fun alternatives :: "re list \<Rightarrow> re" where
  "alternatives [] = Empty"
| "alternatives [r] = r"
| "alternatives (r # rs) = Alt (alternatives rs) r"

definition close_frame :: "frame \<Rightarrow> re" where
  "close_frame f = (case f of (n, alts, terms) \<Rightarrow> alternatives (sequence terms # alts))"

fun parse :: "token list \<Rightarrow> nat \<Rightarrow> bool \<Rightarrow> frame \<Rightarrow> frame list \<Rightarrow> (re \<times> nat) option" where
  "parse [] k q f stack = (case stack of [] \<Rightarrow> Some (close_frame f, k - 1) | g # gs \<Rightarrow> None)"
| "parse (TAtom a # ts) k q (n, alts, terms) stack =
     parse ts k False (n, alts, Atom a # terms) stack"
| "parse (TOpen # ts) k q f stack = parse ts (Suc k) False (k, [], []) (f # stack)"
| "parse (TClose # ts) k q f stack =
     (case stack of
        [] \<Rightarrow> None
      | (n, alts, terms) # gs \<Rightarrow>
          parse ts k False (n, alts, Group (fst f) (close_frame f) # terms) gs)"
| "parse (TBar # ts) k q (n, alts, terms) stack =
     parse ts k False (n, sequence terms # alts, []) stack"
| "parse (TStar # ts) k q (n, alts, terms) stack =
     (case terms of
        [] \<Rightarrow> None
      | r # rs \<Rightarrow> if q then None else parse ts k True (n, alts, Star r # rs) stack)"
| "parse (TPlus # ts) k q (n, alts, terms) stack =
     (case terms of
        [] \<Rightarrow> None
      | r # rs \<Rightarrow> if q then None else parse ts k True (n, alts, Seq r (Star r) # rs) stack)"
| "parse (TQuest # ts) k q (n, alts, terms) stack =
     (case terms of
        [] \<Rightarrow> None
      | r # rs \<Rightarrow> if q then None else parse ts k True (n, alts, Opt r # rs) stack)"

definition compile :: "string \<Rightarrow> (re \<times> nat) option" where
  "compile regex = Option.bind (tokenize regex) (\<lambda>ts. parse ts 1 False (0, [], []) [])"

text \<open>
  The engine of the modelled patterns. A pattern outside them is left to \<open>rest\<close>, which
  stands for the rest of the runtime's engine and of which nothing is assumed.
\<close>

definition RegExp :: "regexp_engine \<Rightarrow> regexp_engine" where
  "RegExp rest regex =
     (case compile regex of
        Some (r, n) \<Rightarrow> Inr (search r n)
      | None \<Rightarrow> rest regex)"

subsection \<open>parseInt\<close>

text \<open>
  \<^verbatim>\<open>parseInt(text, 10)\<close>: white space is skipped, a sign is read, and the longest run of
  digits that follows is the number; without a digit there the result is \<^verbatim>\<open>NaN\<close>. The
  model is that of ASCII text and of numbers a double holds exactly (below \<open>2\<^sup>5\<^sup>3\<close>):
  the number is the exact integer, and white space outside ASCII is not recognised in
  its UTF-8 form.
\<close>

datatype number = Num int | NaN

definition is_digit :: "char \<Rightarrow> bool" where
  "is_digit c = (c \<in> set ''0123456789'')"

definition is_white_space :: "char \<Rightarrow> bool" where
  "is_white_space c = (c \<in> set [CHR 0x09, CHR 0x0A, CHR 0x0B, CHR 0x0C, CHR 0x0D, CHR 0x20, CHR 0xA0])"

definition digit_value :: "char \<Rightarrow> int" where
  "digit_value c = int (of_char c) - 48"

definition digits_value :: "string \<Rightarrow> int" where
  "digits_value ds = foldl (\<lambda>acc c. 10 * acc + digit_value c) 0 ds"

definition parseInt :: "string \<Rightarrow> number" where
  "parseInt text =
     (let trimmed = dropWhile is_white_space text;
          negative = (case trimmed of [] \<Rightarrow> False | c # cs \<Rightarrow> c = CHR ''-'');
          unsigned = (case trimmed of [] \<Rightarrow> []
                      | c # cs \<Rightarrow> if c = CHR ''-'' \<or> c = CHR ''+'' then cs else trimmed);
          ds = takeWhile is_digit unsigned
      in if ds = [] then NaN
         else Num (if negative then - digits_value ds else digits_value ds))"

definition show_number :: "number \<Rightarrow> string" where
  "show_number v = (case v of NaN \<Rightarrow> ''NaN'' | Num i \<Rightarrow> show_int i)"

subsection \<open>The function\<close>

definition at_index :: "match_array \<Rightarrow> nat \<Rightarrow> string option" where
  "at_index m i = (if i < length m then m ! i else None)"

definition extractIssueFromBranch ::
  "regexp_engine \<Rightarrow> string \<Rightarrow> string \<Rightarrow> 'w run \<Rightarrow> (error + number option) \<times> 'w run" where
  "extractIssueFromBranch engine branch regex s =
     (case engine regex of
        Inl e \<Rightarrow> (Inl e, s)
      | Inr regexPattern \<Rightarrow>
          (let match = regexPattern (cleanBranch branch);
               none = (Inr None,
                       core_info (information_sign @ '' No issue number found in branch '' @
                                  apostrophe @ cleanBranch branch @ apostrophe @
                                  '' using regex '' @ apostrophe @ regex @ apostrophe) s)
           in case match of
                None \<Rightarrow> none
              | Some m \<Rightarrow>
                  if truthy (at_index m 1) then
                    (let issueNumber = parseInt (the (at_index m 1))
                     in (Inr (Some issueNumber),
                         core_info (check_mark @ '' Extracted issue #'' @ show_number issueNumber @
                                    '' from branch '' @ apostrophe @ cleanBranch branch @
                                    apostrophe) s))
                  else none))"

section \<open>Measures and examples\<close>

text \<open>An operation that answers from a script of outcomes, one for each call.\<close>

definition scripted :: "(error + 'a) list \<Rightarrow> (error + 'a) \<times> (error + 'a) list" where
  "scripted w = (case w of [] \<Rightarrow> (Inl (Error ''no response''), []) | r # rs \<Rightarrow> (r, rs))"

text \<open>
  The number of queries a scan of the memberships \<open>ms\<close> takes when they are served
  \<open>first\<close> at a time: up to the page of the first membership on the board, or all the
  pages (one, when there is no membership at all) when no membership is on the board.
\<close>

definition first_index :: "('a \<Rightarrow> bool) \<Rightarrow> 'a list \<Rightarrow> nat" where
  "first_index P xs = length (takeWhile (\<lambda>x. \<not> P x) xs)"

definition pages_scanned :: "nat \<Rightarrow> string \<Rightarrow> project_item list \<Rightarrow> nat" where
  "pages_scanned first projectId ms =
     (let i = first_index (on_board projectId) ms
      in if i < length ms then i div first + 1
         else max 1 ((length ms + first - 1) div first))"

text \<open>The memberships a response to the issue query carries, none when a level is absent.\<close>

definition fetched_items :: "issue_result \<Rightarrow> project_item list" where
  "fetched_items result =
     (case Option.bind (Option.bind (issue result) issue_projectItems) issue_nodes of
        None \<Rightarrow> []
      | Some ns \<Rightarrow> ns)"

subsection \<open>A small service, for examples\<close>

definition status_field :: field_node where
  "status_field =
     ProjectV2SingleSelectField ''F1'' ''Status''
       [\<lparr>option_id = ''O1'', option_name = ''Todo''\<rparr>,
        \<lparr>option_id = ''O2'', option_name = ''Done''\<rparr>]"

definition elsewhere :: project_item where
  "elsewhere = \<lparr>item_id = ''I0'', project_id = ''P0''\<rparr>"

definition target :: project_item where
  "target = \<lparr>item_id = ''I1'', project_id = ''P1''\<rparr>"

definition sample_github :: github where
  "sample_github =
     \<lparr>project_fields = (\<lambda>p. if p = ''P1''
          then Some [ProjectV2Field ''F0'' ''Title'' ''TEXT'', OtherFieldNode, status_field,
                     ProjectV2Field ''F2'' ''End date'' ''DATE'']
          else None),
      content_items = (\<lambda>n. if n = ''N1'' then Some [elsewhere, target]
          else if n = ''N2'' then Some (replicate 100 elsewhere @ [target])
          else None),
      queries = 0\<rparr>"

definition digits_pattern :: string where
  "digits_pattern = ''issue-('' @ [CHR 0x5C] @ ''d+)''"

definition word_pattern :: string where
  "word_pattern = ''issue-('' @ [CHR 0x5C] @ ''w+)''"

definition slash_pattern :: string where
  "slash_pattern = ''e/issue-('' @ [CHR 0x5C] @ ''d+)''"

definition no_engine :: regexp_engine where
  "no_engine regex = Inl (SyntaxError regex)"

section \<open>Properties of withRetry\<close>

declare withRetry_loop.simps [simp del]

lemma withRetry_loop_exhausted:
  "\<not> attempt \<le> maxr \<Longrightarrow>
   withRetry_loop fn maxr dly opn attempt lastError s =
     (case lastError of
        None \<Rightarrow> (Inl (TypeError ''Cannot read properties of undefined (reading 'message')''), s)
      | Some e \<Rightarrow> (Inl (Error (failed_after opn maxr e)), s))"
  by (subst withRetry_loop.simps) simp

lemma withRetry_loop_success:
  "attempt \<le> maxr \<Longrightarrow> fn (world s) = (Inr r, w) \<Longrightarrow>
   withRetry_loop fn maxr dly opn attempt lastError s =
     (Inr r, if attempt > 1 then core_info (succeeded_on_attempt opn attempt) (s\<lparr>world := w\<rparr>)
             else s\<lparr>world := w\<rparr>)"
  by (subst withRetry_loop.simps) simp

lemma withRetry_loop_failure:
  "attempt \<le> maxr \<Longrightarrow> fn (world s) = (Inl err, w) \<Longrightarrow>
   withRetry_loop fn maxr dly opn attempt lastError s =
     withRetry_loop fn maxr dly opn (attempt + 1) (Some err)
       (if attempt < maxr
        then setTimeout dly (core_info (retrying_in dly)
               (core_warning (failed_on_attempt opn attempt maxr err) (s\<lparr>world := w\<rparr>)))
        else core_warning (failed_on_attempt opn attempt maxr err) (s\<lparr>world := w\<rparr>))"
  by (subst withRetry_loop.simps) (simp add: Let_def)

lemma spy_eq: "fn w = (r, w') \<Longrightarrow> spy fn (n, w) = (r, (Suc n, w'))"
  by (simp add: spy_def)

lemma show_int_3: "show_int 3 = ''3''"
  by (simp add: show_int_def digit_char_def)

lemma withRetry_first_success:
  "fn (world s) = (Inr r, w) \<Longrightarrow> withRetry fn (labelled l) s = (Inr r, s\<lparr>world := w\<rparr>)"
  by (simp add: withRetry_def labelled_def maxRetries_of_def withRetry_loop_success)

text \<open>
  C2. With three attempts allowed (the default, or \<^verbatim>\<open>maxRetries: 3\<close>), take an operation
  that fails on its first two calls. If its third call succeeds, \<^verbatim>\<open>withRetry\<close> returns
  what that call returned. If its third call fails too, \<^verbatim>\<open>withRetry\<close> throws an error
  whose message is the operation's label, \<^verbatim>\<open>failed after 3 attempts. Last error:\<close> and
  the message of the third failure. In both cases the spy has counted exactly three calls
  of the operation, and the log holds exactly two waits, one after each of the first two
  failures and none after the third.
\<close>

theorem withRetry_three_attempts:
  assumes "fn wa = (Inl ea, wb)" and "fn wb = (Inl eb, wc)"
    and "maxRetries_of options = 3"
  shows "(fn wc = (Inr r, wd) \<longrightarrow>
           withRetry (spy fn) options \<lparr>world = (0, wa), out = t\<rparr> =
             (Inr r,
              \<lparr>world = (3, wd),
               out = t @
                 [Warning (failed_on_attempt (operation_of options) 1 3 ea),
                  Info (retrying_in (delay_of options)), Timeout (delay_of options),
                  Warning (failed_on_attempt (operation_of options) 2 3 eb),
                  Info (retrying_in (delay_of options)), Timeout (delay_of options),
                  Info (succeeded_on_attempt (operation_of options) 3)]\<rparr>)) \<and>
         (fn wc = (Inl ec, wd) \<longrightarrow>
           withRetry (spy fn) options \<lparr>world = (0, wa), out = t\<rparr> =
             (Inl (Error (operation_of options @ '' failed after 3 attempts. Last error: '' @
                          message ec)),
              \<lparr>world = (3, wd),
               out = t @
                 [Warning (failed_on_attempt (operation_of options) 1 3 ea),
                  Info (retrying_in (delay_of options)), Timeout (delay_of options),
                  Warning (failed_on_attempt (operation_of options) 2 3 eb),
                  Info (retrying_in (delay_of options)), Timeout (delay_of options),
                  Warning (failed_on_attempt (operation_of options) 3 3 ec)]\<rparr>))"
  unfolding withRetry_def assms(3)
  by (simp add: withRetry_loop_failure withRetry_loop_success withRetry_loop_exhausted
      spy_eq assms(1,2) core_info_def core_warning_def setTimeout_def failed_after_def show_int_3)

theorem withRetry_three_attempts_witness:
  "withRetry (spy scripted) no_options
     \<lparr>world = (0, [Inl (Error ''a''), Inl (Error ''b''), Inr (7::int)]), out = []\<rparr> =
     (Inr 7,
      \<lparr>world = (3, []),
       out = [Warning (failed_on_attempt ''operation'' 1 3 (Error ''a'')),
              Info (retrying_in 1000), Timeout 1000,
              Warning (failed_on_attempt ''operation'' 2 3 (Error ''b'')),
              Info (retrying_in 1000), Timeout 1000,
              Info (succeeded_on_attempt ''operation'' 3)]\<rparr>) \<and>
   withRetry (spy scripted) no_options
     \<lparr>world = (0, [Inl (Error ''a''), Inl (Error ''b''), Inl (Error ''c'') :: error + int]),
      out = []\<rparr> =
     (Inl (Error ''operation failed after 3 attempts. Last error: c''),
      \<lparr>world = (3, []),
       out = [Warning (failed_on_attempt ''operation'' 1 3 (Error ''a'')),
              Info (retrying_in 1000), Timeout 1000,
              Warning (failed_on_attempt ''operation'' 2 3 (Error ''b'')),
              Info (retrying_in 1000), Timeout 1000,
              Warning (failed_on_attempt ''operation'' 3 3 (Error ''c''))]\<rparr>)"
proof -
  have m: "maxRetries_of no_options = 3"
    by (simp add: maxRetries_of_def no_options_def)
  have a: "scripted [Inl (Error ''a''), Inl (Error ''b''), Inr (7::int)] =
      (Inl (Error ''a''), [Inl (Error ''b''), Inr 7])"
    and b: "scripted [Inl (Error ''b''), Inr (7::int)] = (Inl (Error ''b''), [Inr 7])"
    and c: "scripted [Inr (7::int)] = (Inr 7, [])"
    by (simp_all add: scripted_def)
  have a': "scripted [Inl (Error ''a''), Inl (Error ''b''), Inl (Error ''c'') :: error + int] =
      (Inl (Error ''a''), [Inl (Error ''b''), Inl (Error ''c'')])"
    and b': "scripted [Inl (Error ''b''), Inl (Error ''c'') :: error + int] =
      (Inl (Error ''b''), [Inl (Error ''c'')])"
    and c': "scripted [Inl (Error ''c'') :: error + int] = (Inl (Error ''c''), [])"
    by (simp_all add: scripted_def)
  from withRetry_three_attempts [where r = 7 and wd = "[]" and t = "[]", OF a b m] c
  have first: "withRetry (spy scripted) no_options
     \<lparr>world = (0, [Inl (Error ''a''), Inl (Error ''b''), Inr (7::int)]), out = []\<rparr> =
     (Inr 7,
      \<lparr>world = (3, []),
       out = [Warning (failed_on_attempt ''operation'' 1 3 (Error ''a'')),
              Info (retrying_in 1000), Timeout 1000,
              Warning (failed_on_attempt ''operation'' 2 3 (Error ''b'')),
              Info (retrying_in 1000), Timeout 1000,
              Info (succeeded_on_attempt ''operation'' 3)]\<rparr>)"
    by (simp add: operation_of_def delay_of_def no_options_def)
  from withRetry_three_attempts [where ec = "Error ''c''" and wd = "[]" and t = "[]", OF a' b' m] c'
  have second: "withRetry (spy scripted) no_options
     \<lparr>world = (0, [Inl (Error ''a''), Inl (Error ''b''), Inl (Error ''c'') :: error + int]),
      out = []\<rparr> =
     (Inl (Error ''operation failed after 3 attempts. Last error: c''),
      \<lparr>world = (3, []),
       out = [Warning (failed_on_attempt ''operation'' 1 3 (Error ''a'')),
              Info (retrying_in 1000), Timeout 1000,
              Warning (failed_on_attempt ''operation'' 2 3 (Error ''b'')),
              Info (retrying_in 1000), Timeout 1000,
              Warning (failed_on_attempt ''operation'' 3 3 (Error ''c''))]\<rparr>)"
    by (simp add: operation_of_def delay_of_def no_options_def)
  from first second show ?thesis by (rule conjI)
qed

text \<open>
  C10. When \<^verbatim>\<open>maxRetries\<close> is given and is less than 1, the loop body never runs: the
  spy has counted no call of the operation, nothing is logged, and the \<^verbatim>\<open>throw\<close> after
  the loop, reading \<^verbatim>\<open>lastError.message\<close> of a \<^verbatim>\<open>lastError\<close> that was never assigned,
  fails with a \<^verbatim>\<open>TypeError\<close>; what is thrown is not the \<^verbatim>\<open>Error\<close> with the
  \<^verbatim>\<open>failed after N attempts\<close> message, whatever last error that message would name.
\<close>

theorem withRetry_no_attempt:
  assumes "maxRetries options = Some m" and "m < 1"
  shows "withRetry (spy fn) options \<lparr>world = (0, w), out = t\<rparr> =
           (Inl (TypeError ''Cannot read properties of undefined (reading 'message')''),
            \<lparr>world = (0, w), out = t\<rparr>) \<and>
         (\<forall>e. fst (withRetry (spy fn) options \<lparr>world = (0, w), out = t\<rparr>) \<noteq>
                Inl (Error (failed_after (operation_of options) m e)))"
  using assms by (simp add: withRetry_def maxRetries_of_def withRetry_loop_exhausted)

theorem withRetry_no_attempt_witness:
  "withRetry (spy scripted) \<lparr>maxRetries = Some 0, delay = None, operation = None\<rparr>
     \<lparr>world = (0, [Inr (7::int)]), out = []\<rparr> =
     (Inl (TypeError ''Cannot read properties of undefined (reading 'message')''),
      \<lparr>world = (0, [Inr 7]), out = []\<rparr>)"
  using withRetry_no_attempt
    [of "\<lparr>maxRetries = Some 0, delay = None, operation = None\<rparr>" 0 scripted "[Inr (7::int)]" "[]"]
  by simp

section \<open>Properties of the locators\<close>

lemma find_on_board: "List.find (on_board projectId) xs = Some i \<Longrightarrow> project_id i = projectId"
  by (auto simp: find_Some_iff on_board_def)

lemma findIssueProjectItem_board:
  "findIssueProjectItem octokit issueNodeId projectId s = (Inr (Some i), s') \<Longrightarrow>
   project_id i = projectId"
  by (auto simp: findIssueProjectItem_def Let_def Option.bind_eq_Some_conv
      split: prod.splits sum.splits dest: find_on_board)

lemma findPRProjectItem_loop_board:
  assumes "findPRProjectItem_loop octokit prNodeId projectId projectItem hasNext cursor s = Some y"
  shows "(\<forall>i. projectItem = Some i \<longrightarrow> project_id i = projectId) \<longrightarrow>
         (\<forall>i. fst y = Inr (Some i) \<longrightarrow> project_id i = projectId)"
proof (rule findPRProjectItem_loop.raw_induct
    [where P = "\<lambda>octokit prNodeId projectId projectItem hasNext cursor s y.
       (\<forall>i. projectItem = Some i \<longrightarrow> project_id i = projectId) \<longrightarrow>
       (\<forall>i. fst y = Inr (Some i) \<longrightarrow> project_id i = projectId)", OF _ assms], goal_cases)
  case (1 loop octokit prNodeId projectId projectItem hasNext cursor s y)
  show ?case
  proof (cases "hasNext \<and> projectItem = None")
    case False
    with 1(2) show ?thesis by auto
  next
    case True
    with 1(2) show ?thesis
      by (auto split: prod.splits sum.splits option.splits dest!: 1(1) dest: find_on_board)
  qed
qed

lemma find_app:
  "List.find P (xs @ ys) = (case List.find P xs of None \<Rightarrow> List.find P ys | Some x \<Rightarrow> Some x)"
  by (induction xs) auto

lemma find_replicate_None: "\<not> P x \<Longrightarrow> List.find P (replicate n x) = None"
  by (induction n) auto

lemma loop_exit:
  "\<not> (hasNext \<and> projectItem = None) \<Longrightarrow>
   findPRProjectItem_loop octokit prNodeId projectId projectItem hasNext cursor s =
     Some (Inr projectItem, report_item ''PR'' prNodeId projectId projectItem s)"
  by (subst findPRProjectItem_loop.simps) (erule if_not_P)

lemma loop_unresolved:
  "withRetry (graphql_PR_PROJECT_ITEMS_PAGINATED octokit 100 prNodeId cursor)
     (labelled ''finding PR project items'') s = (Inr result, s1) \<Longrightarrow>
   pullRequest result = None \<Longrightarrow>
   findPRProjectItem_loop octokit prNodeId projectId None True cursor s =
     Some (Inr None, core_warning (pr_not_found prNodeId) s1)"
  by (subst findPRProjectItem_loop.simps) (simp add: PR_PROJECT_ITEMS_PAGINATED_first_def)

lemma service_fetch:
  "withRetry (graphql_PR_PROJECT_ITEMS_PAGINATED github_service n pr c) (labelled l) s =
     (Inr \<lparr>pullRequest = map_option (\<lambda>ms. \<lparr>projectItems = Some (page_of n c ms)\<rparr>)
                                  (content_items (world s) pr)\<rparr>, s\<lparr>world := answered (world s)\<rparr>)"
  by (rule withRetry_first_success) (simp add: github_service_def)

lemma loop_enter:
  "content_items (world s) pr = Some ms \<Longrightarrow>
   findPRProjectItem_loop github_service pr proj None True c s =
     findPRProjectItem_loop github_service pr proj
       (List.find (on_board proj) (nodes (page_of 100 c ms)))
       (hasNextPage (pageInfo (page_of 100 c ms))) (endCursor (pageInfo (page_of 100 c ms)))
       (s\<lparr>world := answered (world s)\<rparr>)"
  by (subst findPRProjectItem_loop.simps)
     (simp add: service_fetch PR_PROJECT_ITEMS_PAGINATED_first_def)

lemma service_unresolved:
  "content_items w pr = None \<Longrightarrow>
   findPRProjectItem github_service pr proj \<lparr>world = w, out = t\<rparr> =
     Some (Inr None, core_warning (pr_not_found pr) \<lparr>world = answered w, out = t\<rparr>)"
  unfolding findPRProjectItem_def
  by (rule trans [OF loop_unresolved [OF service_fetch]]) simp_all

text \<open>
  C9. Whatever the service answers, a membership that \<^verbatim>\<open>findIssueProjectItem\<close> or
  \<^verbatim>\<open>findPRProjectItem\<close> returns has the project id that was passed as \<^verbatim>\<open>projectId\<close>.
\<close>

theorem locators_stay_on_board:
  "(\<forall>i s'. findIssueProjectItem octokit issueNodeId projectId s = (Inr (Some i), s') \<longrightarrow>
            project_id i = projectId) \<and>
   (\<forall>i s'. findPRProjectItem octokit' prNodeId projectId s = Some (Inr (Some i), s') \<longrightarrow>
            project_id i = projectId)"
proof (intro conjI allI impI)
  fix i s'
  assume "findIssueProjectItem octokit issueNodeId projectId s = (Inr (Some i), s')"
  then show "project_id i = projectId" by (rule findIssueProjectItem_board)
next
  fix i s'
  assume "findPRProjectItem octokit' prNodeId projectId s = Some (Inr (Some i), s')"
  then have "findPRProjectItem_loop octokit' prNodeId projectId None True None s =
      Some (Inr (Some i), s')"
    by (simp add: findPRProjectItem_def)
  from findPRProjectItem_loop_board [OF this] show "project_id i = projectId" by simp
qed

lemma find_None_all: "List.find P xs = None \<longleftrightarrow> (\<forall>x\<in>set xs. \<not> P x)"
  by (auto simp: find_None_iff)

lemma first_index_none: "List.find P xs = None \<Longrightarrow> first_index P xs = length xs"
proof -
  assume "List.find P xs = None"
  then have "\<forall>x\<in>set xs. \<not> P x" by (simp only: find_None_all)
  then have "takeWhile (\<lambda>x. \<not> P x) xs = xs" by (simp only: takeWhile_eq_all_conv)
  then show ?thesis by (simp only: first_index_def)
qed

lemma first_index_some: "List.find P xs = Some x \<Longrightarrow> first_index P xs < length xs"
proof -
  assume "List.find P xs = Some x"
  then have "\<not> (\<forall>x\<in>set xs. \<not> P x)"
    using find_None_all [of P xs] by simp
  then have "takeWhile (\<lambda>x. \<not> P x) xs \<noteq> xs"
    using takeWhile_eq_all_conv [of "\<lambda>x. \<not> P x" xs] by blast
  then have "length (takeWhile (\<lambda>x. \<not> P x) xs) \<noteq> length xs"
    by (metis takeWhile_eq_take take_all order_refl)
  moreover have "length (takeWhile (\<lambda>x. \<not> P x) xs) \<le> length xs"
    by (rule length_takeWhile_le)
  ultimately show ?thesis
    unfolding first_index_def by simp
qed

lemma first_index_take_none:
  assumes "List.find P (take k xs) = None" and "k \<le> length xs"
  shows "k \<le> first_index P xs"
proof -
  have "\<forall>x\<in>set (take k xs). \<not> P x"
    using assms(1) by (simp only: find_None_all)
  then have "takeWhile (\<lambda>x. \<not> P x) (take k xs @ drop k xs) =
      take k xs @ takeWhile (\<lambda>x. \<not> P x) (drop k xs)"
    by (intro takeWhile_append2) simp
  then have "takeWhile (\<lambda>x. \<not> P x) xs = take k xs @ takeWhile (\<lambda>x. \<not> P x) (drop k xs)"
    by (simp only: append_take_drop_id)
  then have "first_index P xs = length (take k xs) + length (takeWhile (\<lambda>x. \<not> P x) (drop k xs))"
    by (simp add: first_index_def)
  with assms(2) show ?thesis by simp
qed

lemma first_index_take_some:
  assumes "List.find P (take k xs) = Some x"
  shows "first_index P xs < k \<and> first_index P xs < length xs"
proof -
  from assms obtain y where y: "y \<in> set (take k xs)" "P y"
    using find_None_all [of P "take k xs"] by auto
  then have "takeWhile (\<lambda>x. \<not> P x) (take k xs @ drop k xs) = takeWhile (\<lambda>x. \<not> P x) (take k xs)"
    by (intro takeWhile_append1 [of y]) simp_all
  then have "takeWhile (\<lambda>x. \<not> P x) xs = takeWhile (\<lambda>x. \<not> P x) (take k xs)"
    by (simp only: append_take_drop_id)
  then have "first_index P xs = first_index P (take k xs)"
    by (simp add: first_index_def)
  moreover have "first_index P (take k xs) < length (take k xs)"
    using assms by (rule first_index_some)
  ultimately show ?thesis by simp
qed


lemma scan_exact:
  assumes "content_items w pr = Some ms"
    and "start = (case c of None \<Rightarrow> 0 | Some k \<Rightarrow> k)"
    and "List.find (on_board proj) (take start ms) = None"
    and "start \<le> length ms"
  shows "findPRProjectItem_loop github_service pr proj None True c \<lparr>world = w, out = t\<rparr> =
           Some (Inr (List.find (on_board proj) ms),
                 report_item ''PR'' pr proj (List.find (on_board proj) ms)
                   \<lparr>world = w\<lparr>queries := queries w +
                      (if first_index (on_board proj) ms < length ms
                       then (first_index (on_board proj) ms - start) div 100 + 1
                       else max 1 ((length ms - start + 99) div 100))\<rparr>, out = t\<rparr>)"
  using assms
proof (induction "length ms - start" arbitrary: start c w rule: less_induct)
  case less
  let ?P = "on_board proj"
  let ?page = "take 100 (drop start ms)"
  let ?s1 = "\<lparr>world = answered w, out = t\<rparr>"
  let ?fi = "first_index ?P ms"
  let ?N = "\<lambda>start. if ?fi < length ms then (?fi - start) div 100 + 1
                    else max 1 ((length ms - start + 99) div 100)"
  have split: "List.find ?P ms = List.find ?P (drop start ms)"
    using less.prems(3) find_app [of ?P "take start ms" "drop start ms"] by simp
  have "List.find ?P (?page @ drop 100 (drop start ms)) =
      (case List.find ?P ?page of None \<Rightarrow> List.find ?P (drop 100 (drop start ms)) | Some x \<Rightarrow> Some x)"
    by (rule find_app)
  then have split2: "List.find ?P (drop start ms) =
      (case List.find ?P ?page of None \<Rightarrow> List.find ?P (drop 100 (drop start ms)) | Some x \<Rightarrow> Some x)"
    by (simp only: append_take_drop_id)
  have upto: "List.find ?P (take (start + 100) ms) = List.find ?P ?page"
    using less.prems(3) find_app [of ?P "take start ms" ?page] by (simp add: take_add)
  have low: "start \<le> ?fi"
    using less.prems(3,4) by (rule first_index_take_none)
  have enter: "findPRProjectItem_loop github_service pr proj None True c \<lparr>world = w, out = t\<rparr> =
      findPRProjectItem_loop github_service pr proj (List.find ?P ?page)
        (start + 100 < length ms) (if ?page = [] then None else Some (start + length ?page)) ?s1"
    using loop_enter [of "\<lparr>world = w, out = t\<rparr>" pr ms proj c] less.prems(1,2)
    by (simp add: page_of_def Let_def)
  show ?case
  proof (cases "start + 100 < length ms \<and> List.find ?P ?page = None")
    case False
    then have r: "List.find ?P ms = List.find ?P ?page"
      using split split2 by (auto split: option.splits)
    have one: "?N start = 1"
    proof (cases "List.find ?P ?page")
      case None
      with r have "?fi = length ms" by (simp add: first_index_none)
      moreover from None False have "length ms - start \<le> 100" by simp
      then have "max 1 ((length ms - start + 99) div 100) = 1" by arith
      ultimately show ?thesis by simp
    next
      case (Some x)
      with upto have "List.find ?P (take (start + 100) ms) = Some x" by simp
      then have up: "?fi < start + 100 \<and> ?fi < length ms" by (rule first_index_take_some)
      with low have "?fi - start < 100" by arith
      then have "(?fi - start) div 100 = 0" by (rule div_less)
      with up show ?thesis by simp
    qed
    have "findPRProjectItem_loop github_service pr proj None True c \<lparr>world = w, out = t\<rparr> =
        Some (Inr (List.find ?P ms), report_item ''PR'' pr proj (List.find ?P ms) ?s1)"
      unfolding enter r using False by (subst loop_exit) auto
    then show ?thesis
      by (simp only: one) (simp add: answered_def)
  next
    case True
    then have len: "length ?page = 100" and ne: "?page \<noteq> []" by auto
    have none: "List.find ?P (take (start + 100) ms) = None"
      using True upto by simp
    have cont: "content_items (answered w) pr = Some ms"
      using less.prems(1) by (simp add: answered_def)
    have lt: "length ms - (start + 100) < length ms - start"
      using True by arith
    have le: "start + 100 \<le> length ms"
      using True by simp
    have next_low: "start + 100 \<le> ?fi"
      using none le by (rule first_index_take_none)
    have rec: "findPRProjectItem_loop github_service pr proj None True (Some (start + 100)) ?s1 =
         Some (Inr (List.find ?P ms),
               report_item ''PR'' pr proj (List.find ?P ms)
                 \<lparr>world = (answered w)\<lparr>queries := queries (answered w) + ?N (start + 100)\<rparr>,
                  out = t\<rparr>)"
      by (rule less.hyps [OF lt cont _ none le]) simp
    have step: "?N start = Suc (?N (start + 100))"
    proof (cases "?fi < length ms")
      case fi: True
      have "100 \<le> ?fi - start" using next_low by arith
      then have "(?fi - start) div 100 = Suc ((?fi - start - 100) div 100)"
        by (simp add: le_div_geq)
      moreover have "?fi - start - 100 = ?fi - (start + 100)" by simp
      ultimately show ?thesis using fi by simp
    next
      case fi: False
      have "100 < length ms - start" using True by arith
      then have "max 1 ((length ms - start + 99) div 100) =
          Suc (max 1 ((length ms - (start + 100) + 99) div 100))" by arith
      then show ?thesis using fi by (simp only: if_False)
    qed
    have "findPRProjectItem_loop github_service pr proj None True c \<lparr>world = w, out = t\<rparr> =
        Some (Inr (List.find ?P ms),
              report_item ''PR'' pr proj (List.find ?P ms)
                \<lparr>world = w\<lparr>queries := queries w + Suc (?N (start + 100))\<rparr>, out = t\<rparr>)"
      unfolding enter using True ne len rec by (simp add: answered_def)
    then show ?thesis by (simp only: step)
  qed
qed

lemma scan_whole:
  "content_items w pr = Some ms \<Longrightarrow>
   findPRProjectItem github_service pr proj \<lparr>world = w, out = t\<rparr> =
     Some (Inr (List.find (on_board proj) ms),
           report_item ''PR'' pr proj (List.find (on_board proj) ms)
             \<lparr>world = w\<lparr>queries := queries w + pages_scanned 100 proj ms\<rparr>, out = t\<rparr>)"
proof -
  assume "content_items w pr = Some ms"
  from scan_exact [OF this, of 0 None proj t]
  have "findPRProjectItem_loop github_service pr proj None True None \<lparr>world = w, out = t\<rparr> =
      Some (Inr (List.find (on_board proj) ms),
            report_item ''PR'' pr proj (List.find (on_board proj) ms)
              \<lparr>world = w\<lparr>queries := queries w +
                 (if first_index (on_board proj) ms < length ms
                  then first_index (on_board proj) ms div 100 + 1
                  else max 1 ((length ms + 99) div 100))\<rparr>, out = t\<rparr>)"
    by simp
  moreover have "pages_scanned 100 proj ms =
      (if first_index (on_board proj) ms < length ms
       then first_index (on_board proj) ms div 100 + 1
       else max 1 ((length ms + 99) div 100))"
  proof -
    have "length ms + 100 - 1 = length ms + 99" by arith
    then show ?thesis by (simp only: pages_scanned_def Let_def)
  qed
  ultimately show ?thesis
    by (simp only: findPRProjectItem_def)
qed


lemma loop_null_only_at_end:
  assumes "findPRProjectItem_loop octokit prNodeId projectId projectItem hasNext cursor s = Some y"
  shows "fst y = Inr None \<longrightarrow>
         (if hasNext \<and> projectItem = None
          then \<exists>cursor' s0 result s1.
                 withRetry (graphql_PR_PROJECT_ITEMS_PAGINATED octokit 100 prNodeId cursor')
                   (labelled ''finding PR project items'') s0 = (Inr result, s1) \<and>
                 (pullRequest result = None \<or>
                  (\<exists>pr items. pullRequest result = Some pr \<and> projectItems pr = Some items \<and>
                     \<not> hasNextPage (pageInfo items) \<and>
                     List.find (on_board projectId) (nodes items) = None))
          else projectItem = None)"
proof (rule findPRProjectItem_loop.raw_induct
    [where P = "\<lambda>octokit prNodeId projectId projectItem hasNext cursor s y.
       fst y = Inr None \<longrightarrow>
         (if hasNext \<and> projectItem = None
          then \<exists>cursor' s0 result s1.
                 withRetry (graphql_PR_PROJECT_ITEMS_PAGINATED octokit 100 prNodeId cursor')
                   (labelled ''finding PR project items'') s0 = (Inr result, s1) \<and>
                 (pullRequest result = None \<or>
                  (\<exists>pr items. pullRequest result = Some pr \<and> projectItems pr = Some items \<and>
                     \<not> hasNextPage (pageInfo items) \<and>
                     List.find (on_board projectId) (nodes items) = None))
          else projectItem = None)", OF _ assms], goal_cases)
  case (1 loop octokit prNodeId projectId projectItem hasNext cursor s y)
  show ?case
  proof (cases "hasNext \<and> projectItem = None")
    case False
    with 1(2) show ?thesis by auto
  next
    case True
    obtain r s1 where fetch: "withRetry
        (graphql_PR_PROJECT_ITEMS_PAGINATED octokit 100 prNodeId cursor)
        (labelled ''finding PR project items'') s = (r, s1)"
      by (cases "withRetry (graphql_PR_PROJECT_ITEMS_PAGINATED octokit 100 prNodeId cursor)
        (labelled ''finding PR project items'') s") blast
    show ?thesis
    proof (cases r)
      case (Inl e)
      with 1(2) True fetch show ?thesis
        by (auto simp: PR_PROJECT_ITEMS_PAGINATED_first_def)
    next
      case (Inr result)
      show ?thesis
      proof (cases "pullRequest result")
        case None
        with True fetch Inr show ?thesis by auto
      next
        case (Some pr)
        show ?thesis
        proof (cases "projectItems pr")
          case None
          with 1(2) True fetch Inr Some show ?thesis
            by (auto simp: PR_PROJECT_ITEMS_PAGINATED_first_def)
        next
          case items: (Some items)
          from 1(2) True fetch Inr Some items
          have call: "loop octokit prNodeId projectId
              (List.find (on_board projectId) (nodes items))
              (hasNextPage (pageInfo items)) (endCursor (pageInfo items)) s1 = Some y"
            by (simp add: PR_PROJECT_ITEMS_PAGINATED_first_def)
          show ?thesis
          proof (cases "hasNextPage (pageInfo items) \<and>
              List.find (on_board projectId) (nodes items) = None")
            case again: True
            with 1(1) [OF call] True show ?thesis by simp
          next
            case last: False
            show ?thesis
            proof
              assume "fst y = Inr None"
              with 1(1) [OF call] last
              have "List.find (on_board projectId) (nodes items) = None" by simp
              with last have "\<not> hasNextPage (pageInfo items)" by simp
              with fetch Inr Some items
                \<open>List.find (on_board projectId) (nodes items) = None\<close>
              have "\<exists>cursor' s0 result s1.
                 withRetry (graphql_PR_PROJECT_ITEMS_PAGINATED octokit 100 prNodeId cursor')
                   (labelled ''finding PR project items'') s0 = (Inr result, s1) \<and>
                 (pullRequest result = None \<or>
                  (\<exists>pr items. pullRequest result = Some pr \<and> projectItems pr = Some items \<and>
                     \<not> hasNextPage (pageInfo items) \<and>
                     List.find (on_board projectId) (nodes items) = None))"
                by blast
              with True
              show "if hasNext \<and> projectItem = None
                then \<exists>cursor' s0 result s1.
                 withRetry (graphql_PR_PROJECT_ITEMS_PAGINATED octokit 100 prNodeId cursor')
                   (labelled ''finding PR project items'') s0 = (Inr result, s1) \<and>
                 (pullRequest result = None \<or>
                  (\<exists>pr items. pullRequest result = Some pr \<and> projectItems pr = Some items \<and>
                     \<not> hasNextPage (pageInfo items) \<and>
                     List.find (on_board projectId) (nodes items) = None))
                else projectItem = None"
                by simp
            qed
          qed
        qed
      qed
    qed
  qed
qed

lemma sample_world [simp]:
  "content_items sample_github ''N1'' = Some [elsewhere, target]"
  "content_items sample_github ''N2'' = Some (replicate 100 elsewhere @ [target])"
  "content_items sample_github ''N3'' = None"
  "queries sample_github = 0"
  by (simp_all add: sample_github_def)

lemma sample_items [simp]:
  "\<not> on_board ''P1'' elsewhere" "on_board ''P1'' target" "project_id target = ''P1''"
  by (simp_all add: on_board_def elsewhere_def target_def)

theorem locators_stay_on_board_witness:
  "findIssueProjectItem github_service ''N1'' ''P1'' \<lparr>world = sample_github, out = []\<rparr> =
     (Inr (Some target),
      report_item ''issue'' ''N1'' ''P1'' (Some target) \<lparr>world = answered sample_github, out = []\<rparr>) \<and>
   findPRProjectItem github_service ''N1'' ''P1'' \<lparr>world = sample_github, out = []\<rparr> =
     Some (Inr (Some target),
           report_item ''PR'' ''N1'' ''P1'' (Some target) \<lparr>world = answered sample_github, out = []\<rparr>) \<and>
   project_id target = ''P1''"
proof -
  have a: "findIssueProjectItem github_service ''N1'' ''P1'' \<lparr>world = sample_github, out = []\<rparr> =
     (Inr (Some target),
      report_item ''issue'' ''N1'' ''P1'' (Some target) \<lparr>world = answered sample_github, out = []\<rparr>)"
    by (simp add: findIssueProjectItem_def
        withRetry_first_success [where w = "answered sample_github"
          and r = "\<lparr>issue = Some \<lparr>issue_projectItems = Some \<lparr>issue_nodes = Some [elsewhere, target]\<rparr>\<rparr>\<rparr>"]
        github_service_def ISSUE_PROJECT_ITEMS_first_def Let_def)
  have b: "findPRProjectItem github_service ''N1'' ''P1'' \<lparr>world = sample_github, out = []\<rparr> =
     Some (Inr (Some target),
           report_item ''PR'' ''N1'' ''P1'' (Some target) \<lparr>world = answered sample_github, out = []\<rparr>)"
    unfolding findPRProjectItem_def
    by (subst loop_enter [where ms = "[elsewhere, target]"])
       (simp_all add: page_of_def loop_exit)
  from locators_stay_on_board [of github_service "''N1''" "''P1''"
      "\<lparr>world = sample_github, out = []\<rparr>" github_service "''N1''"] a b
  show ?thesis by simp
qed

text \<open>
  C1. Against the paging service, for a pull request that resolves and has the
  memberships \<open>ms\<close>, served 100 at a time: \<^verbatim>\<open>findPRProjectItem\<close> returns the first
  membership of \<open>ms\<close> that is on the target board, on whichever page it lies, the last
  included, after one query for each page up to that one; it returns no membership only
  when \<open>ms\<close> has none on that board, after one query for each page. For an identifier
  that does not resolve it returns no membership after the one query. With any service,
  at any cursor of the scan: when the answer to the query carries no pull request, the
  scan ends there with no membership, the state being the one that query left, with one
  warning added. And with any service, when \<^verbatim>\<open>findPRProjectItem\<close> returns no membership,
  some query was answered either without a pull request, or with a page that holds no
  membership on the target board and says that no page follows.
\<close>

theorem findPRProjectItem_pagination:
  "(\<forall>ms. content_items w prNodeId = Some ms \<longrightarrow>
      findPRProjectItem github_service prNodeId projectId \<lparr>world = w, out = t\<rparr> =
        Some (Inr (List.find (on_board projectId) ms),
              report_item ''PR'' prNodeId projectId (List.find (on_board projectId) ms)
                \<lparr>world = w\<lparr>queries := queries w + pages_scanned 100 projectId ms\<rparr>,
                 out = t\<rparr>)) \<and>
   (content_items w prNodeId = None \<longrightarrow>
      findPRProjectItem github_service prNodeId projectId \<lparr>world = w, out = t\<rparr> =
        Some (Inr None,
              core_warning (pr_not_found prNodeId) \<lparr>world = w\<lparr>queries := queries w + 1\<rparr>, out = t\<rparr>)) \<and>
   (\<forall>result s1.
      withRetry (graphql_PR_PROJECT_ITEMS_PAGINATED octokit 100 prNodeId cursor)
        (labelled ''finding PR project items'') s = (Inr result, s1) \<and>
      pullRequest result = None \<longrightarrow>
      findPRProjectItem_loop octokit prNodeId projectId None True cursor s =
        Some (Inr None, core_warning (pr_not_found prNodeId) s1)) \<and>
   (\<forall>s'. findPRProjectItem octokit prNodeId projectId s = Some (Inr None, s') \<longrightarrow>
      (\<exists>cursor' s0 result s1.
         withRetry (graphql_PR_PROJECT_ITEMS_PAGINATED octokit 100 prNodeId cursor')
           (labelled ''finding PR project items'') s0 = (Inr result, s1) \<and>
         (pullRequest result = None \<or>
          (\<exists>pr items. pullRequest result = Some pr \<and> projectItems pr = Some items \<and>
             \<not> hasNextPage (pageInfo items) \<and>
             List.find (on_board projectId) (nodes items) = None))))"
proof (intro conjI allI impI)
  fix ms
  assume "content_items w prNodeId = Some ms"
  then show "findPRProjectItem github_service prNodeId projectId \<lparr>world = w, out = t\<rparr> =
        Some (Inr (List.find (on_board projectId) ms),
              report_item ''PR'' prNodeId projectId (List.find (on_board projectId) ms)
                \<lparr>world = w\<lparr>queries := queries w + pages_scanned 100 projectId ms\<rparr>,
                 out = t\<rparr>)"
    by (rule scan_whole)
next
  assume "content_items w prNodeId = None"
  then show "findPRProjectItem github_service prNodeId projectId \<lparr>world = w, out = t\<rparr> =
        Some (Inr None,
              core_warning (pr_not_found prNodeId) \<lparr>world = w\<lparr>queries := queries w + 1\<rparr>, out = t\<rparr>)"
    by (simp add: service_unresolved answered_def)
next
  fix result s1
  assume "withRetry (graphql_PR_PROJECT_ITEMS_PAGINATED octokit 100 prNodeId cursor)
        (labelled ''finding PR project items'') s = (Inr result, s1) \<and>
      pullRequest result = None"
  then show "findPRProjectItem_loop octokit prNodeId projectId None True cursor s =
        Some (Inr None, core_warning (pr_not_found prNodeId) s1)"
    by (simp add: loop_unresolved)
next
  fix s'
  assume "findPRProjectItem octokit prNodeId projectId s = Some (Inr None, s')"
  then have "findPRProjectItem_loop octokit prNodeId projectId None True None s =
      Some (Inr None, s')"
    by (simp only: findPRProjectItem_def)
  from loop_null_only_at_end [OF this]
  show "\<exists>cursor' s0 result s1.
         withRetry (graphql_PR_PROJECT_ITEMS_PAGINATED octokit 100 prNodeId cursor')
           (labelled ''finding PR project items'') s0 = (Inr result, s1) \<and>
         (pullRequest result = None \<or>
          (\<exists>pr items. pullRequest result = Some pr \<and> projectItems pr = Some items \<and>
             \<not> hasNextPage (pageInfo items) \<and>
             List.find (on_board projectId) (nodes items) = None))"
    by simp
qed

lemma sample_scan:
  "List.find (on_board ''P1'') (replicate 100 elsewhere @ [target]) = Some target"
  "pages_scanned 100 ''P1'' (replicate 100 elsewhere @ [target]) = 2"
  "List.find (on_board ''P2'') [elsewhere, target] = None"
  "pages_scanned 100 ''P2'' [elsewhere, target] = 1"
proof -
  show "List.find (on_board ''P1'') (replicate 100 elsewhere @ [target]) = Some target"
    by (simp add: find_app find_replicate_None)
  have "takeWhile (\<lambda>x. \<not> on_board ''P1'' x) (replicate 100 elsewhere @ [target]) =
      replicate 100 elsewhere @ takeWhile (\<lambda>x. \<not> on_board ''P1'' x) [target]"
    by (rule takeWhile_append2) simp
  then have "first_index (on_board ''P1'') (replicate 100 elsewhere @ [target]) = 100"
    by (simp add: first_index_def)
  then show "pages_scanned 100 ''P1'' (replicate 100 elsewhere @ [target]) = 2"
    by (simp add: pages_scanned_def)
  show "List.find (on_board ''P2'') [elsewhere, target] = None"
    by (simp add: on_board_def elsewhere_def target_def)
  show "pages_scanned 100 ''P2'' [elsewhere, target] = 1"
    by (simp add: pages_scanned_def first_index_def on_board_def elsewhere_def target_def)
qed

theorem findPRProjectItem_pagination_witness:
  "findPRProjectItem github_service ''N2'' ''P1'' \<lparr>world = sample_github, out = []\<rparr> =
     Some (Inr (Some target),
           report_item ''PR'' ''N2'' ''P1'' (Some target)
             \<lparr>world = sample_github\<lparr>queries := 2\<rparr>, out = []\<rparr>) \<and>
   findPRProjectItem github_service ''N3'' ''P1'' \<lparr>world = sample_github, out = []\<rparr> =
     Some (Inr None,
           core_warning (pr_not_found ''N3'') \<lparr>world = sample_github\<lparr>queries := 1\<rparr>, out = []\<rparr>) \<and>
   findPRProjectItem_loop github_service ''N3'' ''P1'' None True (Some 100)
       \<lparr>world = sample_github, out = []\<rparr> =
     Some (Inr None, core_warning (pr_not_found ''N3'') \<lparr>world = answered sample_github, out = []\<rparr>) \<and>
   findPRProjectItem github_service ''N1'' ''P2'' \<lparr>world = sample_github, out = []\<rparr> =
     Some (Inr None,
           report_item ''PR'' ''N1'' ''P2'' None \<lparr>world = sample_github\<lparr>queries := 1\<rparr>, out = []\<rparr>) \<and>
   (\<exists>cursor' s0 result s1.
      withRetry (graphql_PR_PROJECT_ITEMS_PAGINATED github_service 100 ''N1'' cursor')
        (labelled ''finding PR project items'') s0 = (Inr result, s1) \<and>
      (pullRequest result = None \<or>
       (\<exists>pr items. pullRequest result = Some pr \<and> projectItems pr = Some items \<and>
          \<not> hasNextPage (pageInfo items) \<and>
          List.find (on_board ''P2'') (nodes items) = None)))"
proof -
  have fetch: "withRetry (graphql_PR_PROJECT_ITEMS_PAGINATED github_service 100 ''N3'' (Some 100))
        (labelled ''finding PR project items'') \<lparr>world = sample_github, out = []\<rparr> =
      (Inr \<lparr>pullRequest = None\<rparr>, \<lparr>world = answered sample_github, out = []\<rparr>)"
    by (simp add: service_fetch)
  note inst = findPRProjectItem_pagination [where w = sample_github and t = "[]"
      and octokit = github_service and s = "\<lparr>world = sample_github, out = []\<rparr>"]
  have one: "findPRProjectItem github_service ''N2'' ''P1'' \<lparr>world = sample_github, out = []\<rparr> =
     Some (Inr (Some target),
           report_item ''PR'' ''N2'' ''P1'' (Some target)
             \<lparr>world = sample_github\<lparr>queries := 2\<rparr>, out = []\<rparr>)"
    using inst [where prNodeId = "''N2''" and projectId = "''P1''", THEN conjunct1, rule_format,
        OF sample_world(2)]
    by (simp add: sample_scan numeral_2_eq_2)
  have two: "findPRProjectItem github_service ''N3'' ''P1'' \<lparr>world = sample_github, out = []\<rparr> =
     Some (Inr None,
           core_warning (pr_not_found ''N3'') \<lparr>world = sample_github\<lparr>queries := 1\<rparr>, out = []\<rparr>)"
    using inst [where prNodeId = "''N3''" and projectId = "''P1''", THEN conjunct2, THEN conjunct1]
    by simp
  have three: "findPRProjectItem_loop github_service ''N3'' ''P1'' None True (Some 100)
       \<lparr>world = sample_github, out = []\<rparr> =
     Some (Inr None, core_warning (pr_not_found ''N3'') \<lparr>world = answered sample_github, out = []\<rparr>)"
    using inst [where prNodeId = "''N3''" and projectId = "''P1''" and cursor = "Some 100",
        THEN conjunct2, THEN conjunct2, THEN conjunct1, rule_format, OF conjI, OF fetch]
    by simp
  have four: "findPRProjectItem github_service ''N1'' ''P2'' \<lparr>world = sample_github, out = []\<rparr> =
     Some (Inr None,
           report_item ''PR'' ''N1'' ''P2'' None \<lparr>world = sample_github\<lparr>queries := 1\<rparr>, out = []\<rparr>)"
    using inst [where prNodeId = "''N1''" and projectId = "''P2''", THEN conjunct1, rule_format,
        OF sample_world(1)]
    unfolding sample_scan(3,4) by simp
  from inst [where prNodeId = "''N1''" and projectId = "''P2''", THEN conjunct2, THEN conjunct2,
      THEN conjunct2, rule_format, OF four]
  have five: "\<exists>cursor' s0 result s1.
      withRetry (graphql_PR_PROJECT_ITEMS_PAGINATED github_service 100 ''N1'' cursor')
        (labelled ''finding PR project items'') s0 = (Inr result, s1) \<and>
      (pullRequest result = None \<or>
       (\<exists>pr items. pullRequest result = Some pr \<and> projectItems pr = Some items \<and>
          \<not> hasNextPage (pageInfo items) \<and>
          List.find (on_board ''P2'') (nodes items) = None))" .
  from one two three four five show ?thesis by blast
qed

section \<open>Properties of findIssueProjectItem\<close>

lemma issue_fetch:
  "withRetry (graphql_ISSUE_PROJECT_ITEMS github_service n c) (labelled l) s =
     (Inr \<lparr>issue = map_option
                 (\<lambda>ms. \<lparr>issue_projectItems = Some \<lparr>issue_nodes = Some (take n ms)\<rparr>\<rparr>)
                 (content_items (world s) c)\<rparr>, s\<lparr>world := answered (world s)\<rparr>)"
  by (rule withRetry_first_success) (simp add: github_service_def)

lemma find_fetched_items:
  "Option.bind (Option.bind (Option.bind (issue result) issue_projectItems) issue_nodes)
     (List.find P) = List.find P (fetched_items result)"
  by (simp add: fetched_items_def split: option.splits Option.bind_splits)

text \<open>
  C5. \<^verbatim>\<open>findIssueProjectItem\<close> sends the query that asks for the first 20 memberships
  once (through \<^verbatim>\<open>withRetry\<close>); from the one answer it gets, it returns the first
  membership whose project id is the target board's, and no membership when the answer
  holds none. Against the paging service, for an issue with the memberships \<open>ms\<close>, that
  is the first membership on the target board among the first 20 of \<open>ms\<close>, after one
  query.
\<close>

theorem findIssueProjectItem_one_page:
  "(\<forall>result s1.
      withRetry (graphql_ISSUE_PROJECT_ITEMS octokit 20 issueNodeId)
        (labelled ''finding issue project items'') s = (Inr result, s1) \<longrightarrow>
      findIssueProjectItem octokit issueNodeId projectId s =
        (Inr (List.find (on_board projectId) (fetched_items result)),
         report_item ''issue'' issueNodeId projectId
           (List.find (on_board projectId) (fetched_items result)) s1)) \<and>
   (\<forall>ms. content_items w issueNodeId = Some ms \<longrightarrow>
      findIssueProjectItem github_service issueNodeId projectId \<lparr>world = w, out = t\<rparr> =
        (Inr (List.find (on_board projectId) (take 20 ms)),
         report_item ''issue'' issueNodeId projectId (List.find (on_board projectId) (take 20 ms))
           \<lparr>world = w\<lparr>queries := queries w + 1\<rparr>, out = t\<rparr>))"
proof (intro conjI allI impI)
  fix result s1
  assume "withRetry (graphql_ISSUE_PROJECT_ITEMS octokit 20 issueNodeId)
        (labelled ''finding issue project items'') s = (Inr result, s1)"
  then show "findIssueProjectItem octokit issueNodeId projectId s =
        (Inr (List.find (on_board projectId) (fetched_items result)),
         report_item ''issue'' issueNodeId projectId
           (List.find (on_board projectId) (fetched_items result)) s1)"
    unfolding findIssueProjectItem_def ISSUE_PROJECT_ITEMS_first_def find_fetched_items
    by (simp add: Let_def)
next
  fix ms
  assume "content_items w issueNodeId = Some ms"
  then show "findIssueProjectItem github_service issueNodeId projectId \<lparr>world = w, out = t\<rparr> =
        (Inr (List.find (on_board projectId) (take 20 ms)),
         report_item ''issue'' issueNodeId projectId (List.find (on_board projectId) (take 20 ms))
           \<lparr>world = w\<lparr>queries := queries w + 1\<rparr>, out = t\<rparr>)"
    by (simp add: findIssueProjectItem_def ISSUE_PROJECT_ITEMS_first_def Let_def issue_fetch
        answered_def)
qed

theorem findIssueProjectItem_one_page_witness:
  "findIssueProjectItem github_service ''N3'' ''P1'' \<lparr>world = sample_github, out = []\<rparr> =
     (Inr None,
      report_item ''issue'' ''N3'' ''P1'' None \<lparr>world = answered sample_github, out = []\<rparr>) \<and>
   findIssueProjectItem github_service ''N2'' ''P1'' \<lparr>world = sample_github, out = []\<rparr> =
     (Inr None,
      report_item ''issue'' ''N2'' ''P1'' None
        \<lparr>world = sample_github\<lparr>queries := 1\<rparr>, out = []\<rparr>) \<and>
   findIssueProjectItem github_service ''N1'' ''P1'' \<lparr>world = sample_github, out = []\<rparr> =
     (Inr (Some target),
      report_item ''issue'' ''N1'' ''P1'' (Some target)
        \<lparr>world = sample_github\<lparr>queries := 1\<rparr>, out = []\<rparr>)"
proof -
  note inst = findIssueProjectItem_one_page [where octokit = github_service and w = sample_github
      and projectId = "''P1''" and t = "[]" and s = "\<lparr>world = sample_github, out = []\<rparr>"]
  have fetch: "withRetry (graphql_ISSUE_PROJECT_ITEMS github_service 20 ''N3'')
        (labelled ''finding issue project items'') \<lparr>world = sample_github, out = []\<rparr> =
      (Inr \<lparr>issue = None\<rparr>, \<lparr>world = answered sample_github, out = []\<rparr>)"
    by (simp add: issue_fetch)
  have one: "findIssueProjectItem github_service ''N3'' ''P1'' \<lparr>world = sample_github, out = []\<rparr> =
     (Inr None,
      report_item ''issue'' ''N3'' ''P1'' None \<lparr>world = answered sample_github, out = []\<rparr>)"
    using inst [where issueNodeId = "''N3''", THEN conjunct1, rule_format, OF fetch]
    by (simp add: fetched_items_def)
  have "take 20 (replicate 100 elsewhere @ [target]) = replicate 20 elsewhere"
    by simp
  then have two: "findIssueProjectItem github_service ''N2'' ''P1'' \<lparr>world = sample_github, out = []\<rparr> =
     (Inr None,
      report_item ''issue'' ''N2'' ''P1'' None
        \<lparr>world = sample_github\<lparr>queries := 1\<rparr>, out = []\<rparr>)"
    using inst [where issueNodeId = "''N2''", THEN conjunct2, rule_format,
        of "replicate 100 elsewhere @ [target]"]
    by (simp add: find_replicate_None)
  have three: "findIssueProjectItem github_service ''N1'' ''P1'' \<lparr>world = sample_github, out = []\<rparr> =
     (Inr (Some target),
      report_item ''issue'' ''N1'' ''P1'' (Some target)
        \<lparr>world = sample_github\<lparr>queries := 1\<rparr>, out = []\<rparr>)"
    using inst [where issueNodeId = "''N1''", THEN conjunct2, rule_format, of "[elsewhere, target]"]
    by simp
  from one two three show ?thesis by blast
qed

section \<open>Properties of findProjectFields\<close>

lemma fields_fetch:
  "withRetry (graphql_PROJECT_FIELDS github_service n p) (labelled l) s =
     (Inr \<lparr>node = map_option (\<lambda>fs. \<lparr>fields_nodes = Some (take n fs)\<rparr>)
                           (project_fields (world s) p)\<rparr>, s\<lparr>world := answered (world s)\<rparr>)"
  by (rule withRetry_first_success) (simp add: github_service_def)

lemma not_found_distinct: "field_not_found a b \<noteq> option_not_found c d"
  by (simp add: field_not_found_def option_not_found_def)

lemma findProjectFields_fetched:
  assumes "withRetry (graphql_PROJECT_FIELDS octokit 50 projectId)
             (labelled ''finding project fields'') s = (Inr result, s1)"
    and "node result = Some n" and "fields_nodes n = Some fl"
  shows "findProjectFields octokit projectId fieldName optionName s =
           select_field fl projectId fieldName optionName s1"
  using assms by (simp add: findProjectFields_def PROJECT_FIELDS_first_def)

lemma select_field_missing:
  "List.find (\<lambda>f. node_name f = Some fieldName) fl = None \<Longrightarrow>
   select_field fl projectId fieldName optionName s = (Inl (field_not_found fieldName projectId), s)"
  by (simp add: select_field_def)

lemma select_field_no_option:
  "List.find (\<lambda>f. node_name f = Some fieldName) fl = Some fld \<Longrightarrow>
   \<not> (truthy optionName \<and> node_options fld \<noteq> None) \<Longrightarrow>
   select_field fl projectId fieldName optionName s =
     (Inr \<lparr>fieldId = node_id fld, optionId = None, field = fld\<rparr>,
      core_info (found_field_message fieldName fld optionName None) s)"
  by (cases "truthy optionName \<and> node_options fld \<noteq> None")
     (simp_all only: select_field_def Let_def option.case if_False)

lemma select_field_option:
  "List.find (\<lambda>f. node_name f = Some fieldName) fl = Some fld \<Longrightarrow>
   name \<noteq> [] \<Longrightarrow> node_options fld = Some opts \<Longrightarrow>
   select_field fl projectId fieldName (Some name) s =
     (case List.find (\<lambda>opt. option_name opt = name) opts of
        None \<Rightarrow> (Inl (option_not_found (Some name) fieldName), s)
      | Some opt \<Rightarrow>
          (Inr \<lparr>fieldId = node_id fld, optionId = Some (option_id opt), field = fld\<rparr>,
           core_info (found_field_message fieldName fld (Some name) (Some (option_id opt))) s))"
  by (simp add: select_field_def Let_def truthy_def)

lemma select_field_returns:
  "select_field fl projectId fieldName optionName s = (Inr r, s') \<Longrightarrow>
   List.find (\<lambda>f. node_name f = Some fieldName) fl = Some (field r) \<and> fieldId r = node_id (field r)"
  by (auto simp: select_field_def Let_def split: option.splits if_splits)

lemma select_field_not_found_iff:
  "fst (select_field fl projectId fieldName optionName s) = Inl (field_not_found fieldName projectId)
   \<longleftrightarrow> List.find (\<lambda>f. node_name f = Some fieldName) fl = None"
  by (auto simp: select_field_def Let_def not_found_distinct [symmetric] split: option.splits)

lemma findProjectFields_served:
  "project_fields w projectId = Some fs \<Longrightarrow>
   findProjectFields github_service projectId fieldName optionName \<lparr>world = w, out = t\<rparr> =
     select_field (take 50 fs) projectId fieldName optionName \<lparr>world = answered w, out = t\<rparr>"
  by (simp add: findProjectFields_def fields_fetch PROJECT_FIELDS_first_def)

text \<open>
  C3. Let the query for the first 50 fields of the board be answered (through
  \<^verbatim>\<open>withRetry\<close>) with the field list \<open>fl\<close>. Then \<^verbatim>\<open>findProjectFields\<close> throws the
  \<^verbatim>\<open>Field ... not found\<close> error exactly when no field of \<open>fl\<close> has the name
  \<^verbatim>\<open>fieldName\<close>, character for character; whenever it returns, the field it returns is
  the first of \<open>fl\<close> with that name; and called without an option name it returns that
  field whenever there is one. Against the paging service, for a board with the fields
  \<open>fs\<close>, the list searched is the first 50 of \<open>fs\<close>.
\<close>

theorem findProjectFields_first_match:
  "(\<forall>result s1 n fl.
      withRetry (graphql_PROJECT_FIELDS octokit 50 projectId)
        (labelled ''finding project fields'') s = (Inr result, s1) \<and>
      node result = Some n \<and> fields_nodes n = Some fl \<longrightarrow>
      (fst (findProjectFields octokit projectId fieldName optionName s) =
         Inl (field_not_found fieldName projectId) \<longleftrightarrow>
       List.find (\<lambda>f. node_name f = Some fieldName) fl = None) \<and>
      (\<forall>r s'. findProjectFields octokit projectId fieldName optionName s = (Inr r, s') \<longrightarrow>
         List.find (\<lambda>f. node_name f = Some fieldName) fl = Some (field r) \<and>
         fieldId r = node_id (field r)) \<and>
      (\<forall>fld. List.find (\<lambda>f. node_name f = Some fieldName) fl = Some fld \<longrightarrow>
         findProjectFields octokit projectId fieldName None s =
           (Inr \<lparr>fieldId = node_id fld, optionId = None, field = fld\<rparr>,
            core_info (found_field_message fieldName fld None None) s1))) \<and>
   (\<forall>fs. project_fields w projectId = Some fs \<longrightarrow>
      fst (findProjectFields github_service projectId fieldName None \<lparr>world = w, out = t\<rparr>) =
        (case List.find (\<lambda>f. node_name f = Some fieldName) (take 50 fs) of
           None \<Rightarrow> Inl (field_not_found fieldName projectId)
         | Some fld \<Rightarrow> Inr \<lparr>fieldId = node_id fld, optionId = None, field = fld\<rparr>))"
proof (intro conjI allI impI)
  fix fs
  assume "project_fields w projectId = Some fs"
  then show "fst (findProjectFields github_service projectId fieldName None \<lparr>world = w, out = t\<rparr>) =
        (case List.find (\<lambda>f. node_name f = Some fieldName) (take 50 fs) of
           None \<Rightarrow> Inl (field_not_found fieldName projectId)
         | Some fld \<Rightarrow> Inr \<lparr>fieldId = node_id fld, optionId = None, field = fld\<rparr>)"
    by (simp add: findProjectFields_served select_field_missing select_field_no_option
        truthy_def split: option.splits)
qed (auto simp: findProjectFields_fetched select_field_not_found_iff select_field_no_option
    truthy_def dest: select_field_returns)

lemma sample_fields [simp]:
  "project_fields sample_github ''P1'' =
     Some [ProjectV2Field ''F0'' ''Title'' ''TEXT'', OtherFieldNode, status_field,
           ProjectV2Field ''F2'' ''End date'' ''DATE'']"
  by (simp add: sample_github_def)

lemma sample_fetch:
  "withRetry (graphql_PROJECT_FIELDS github_service 50 ''P1'')
     (labelled ''finding project fields'') \<lparr>world = sample_github, out = []\<rparr> =
   (Inr \<lparr>node = Some \<lparr>fields_nodes =
           Some [ProjectV2Field ''F0'' ''Title'' ''TEXT'', OtherFieldNode, status_field,
                 ProjectV2Field ''F2'' ''End date'' ''DATE'']\<rparr>\<rparr>,
    \<lparr>world = answered sample_github, out = []\<rparr>)"
  by (simp add: fields_fetch)

lemma sample_node:
  "node \<lparr>node = Some \<lparr>fields_nodes = Some fl\<rparr>\<rparr> = Some \<lparr>fields_nodes = Some fl\<rparr>"
  by simp

lemma sample_nodes: "fields_nodes \<lparr>fields_nodes = Some fl\<rparr> = Some fl"
  by simp

lemma status_field_simps [simp]:
  "node_name status_field = Some ''Status''"
  "node_id status_field = Some ''F1''"
  "node_options status_field =
     Some [\<lparr>option_id = ''O1'', option_name = ''Todo''\<rparr>, \<lparr>option_id = ''O2'', option_name = ''Done''\<rparr>]"
  by (simp_all add: status_field_def)

lemma sample_find:
  "List.find (\<lambda>f. node_name f = Some ''Status'')
     [ProjectV2Field ''F0'' ''Title'' ''TEXT'', OtherFieldNode, status_field,
      ProjectV2Field ''F2'' ''End date'' ''DATE''] = Some status_field"
  "List.find (\<lambda>f. node_name f = Some ''Size'')
     [ProjectV2Field ''F0'' ''Title'' ''TEXT'', OtherFieldNode, status_field,
      ProjectV2Field ''F2'' ''End date'' ''DATE''] = None"
  "List.find (\<lambda>f. node_name f = Some ''End date'')
     [ProjectV2Field ''F0'' ''Title'' ''TEXT'', OtherFieldNode, status_field,
      ProjectV2Field ''F2'' ''End date'' ''DATE''] = Some (ProjectV2Field ''F2'' ''End date'' ''DATE'')"
  by simp_all

lemma sample_options:
  "List.find (\<lambda>opt. option_name opt = ''Done'')
     [\<lparr>option_id = ''O1'', option_name = ''Todo''\<rparr>, \<lparr>option_id = ''O2'', option_name = ''Done''\<rparr>] =
   Some \<lparr>option_id = ''O2'', option_name = ''Done''\<rparr>"
  "List.find (\<lambda>opt. option_name opt = ''Doing'')
     [\<lparr>option_id = ''O1'', option_name = ''Todo''\<rparr>, \<lparr>option_id = ''O2'', option_name = ''Done''\<rparr>] =
   None"
  "List.find (\<lambda>opt. option_name opt = '''')
     [\<lparr>option_id = ''O1'', option_name = ''Todo''\<rparr>, \<lparr>option_id = ''O2'', option_name = ''Done''\<rparr>] =
   None"
  by simp_all

theorem findProjectFields_first_match_witness:
  "fst (findProjectFields github_service ''P1'' ''Size'' None \<lparr>world = sample_github, out = []\<rparr>) =
     Inl (field_not_found ''Size'' ''P1'') \<and>
   findProjectFields github_service ''P1'' ''Status'' None \<lparr>world = sample_github, out = []\<rparr> =
     (Inr \<lparr>fieldId = Some ''F1'', optionId = None, field = status_field\<rparr>,
      core_info (found_field_message ''Status'' status_field None None)
        \<lparr>world = answered sample_github, out = []\<rparr>) \<and>
   List.find (\<lambda>f. node_name f = Some ''Status'')
     [ProjectV2Field ''F0'' ''Title'' ''TEXT'', OtherFieldNode, status_field,
      ProjectV2Field ''F2'' ''End date'' ''DATE''] = Some status_field \<and>
   fst (findProjectFields github_service ''P1'' ''End date'' None
          \<lparr>world = sample_github, out = []\<rparr>) =
     Inr \<lparr>fieldId = Some ''F2'', optionId = None,
          field = ProjectV2Field ''F2'' ''End date'' ''DATE''\<rparr>"
proof -
  note inst = findProjectFields_first_match [where optionName = None, THEN conjunct1,
      rule_format, OF conjI [OF sample_fetch conjI [OF sample_node sample_nodes]]]
  note served = findProjectFields_first_match [where optionName = None and w = sample_github
      and projectId = "''P1''" and fieldName = "''End date''" and t = "[]",
      THEN conjunct2, rule_format, OF sample_fields]
  have one: "fst (findProjectFields github_service ''P1'' ''Size'' None
                   \<lparr>world = sample_github, out = []\<rparr>) = Inl (field_not_found ''Size'' ''P1'')"
    using inst [where fieldName = "''Size''", THEN conjunct1] sample_find(2) by blast
  have two: "findProjectFields github_service ''P1'' ''Status'' None \<lparr>world = sample_github, out = []\<rparr> =
     (Inr \<lparr>fieldId = Some ''F1'', optionId = None, field = status_field\<rparr>,
      core_info (found_field_message ''Status'' status_field None None)
        \<lparr>world = answered sample_github, out = []\<rparr>)"
    using inst [where fieldName = "''Status''", THEN conjunct2, THEN conjunct2, rule_format,
        OF sample_find(1)]
    by (simp only: status_field_simps)
  from inst [where fieldName = "''Status''", THEN conjunct2, THEN conjunct1, rule_format, OF two]
  have three: "List.find (\<lambda>f. node_name f = Some ''Status'')
     [ProjectV2Field ''F0'' ''Title'' ''TEXT'', OtherFieldNode, status_field,
      ProjectV2Field ''F2'' ''End date'' ''DATE''] = Some status_field"
    by (simp only: found_fields.simps)
  have four: "fst (findProjectFields github_service ''P1'' ''End date'' None
          \<lparr>world = sample_github, out = []\<rparr>) =
     Inr \<lparr>fieldId = Some ''F2'', optionId = None,
          field = ProjectV2Field ''F2'' ''End date'' ''DATE''\<rparr>"
    using served by simp
  from one two three four show ?thesis by blast
qed

text \<open>
  C4 as it is written does not hold. An option name that is passed but is the empty
  string fails the test \<^verbatim>\<open>optionName && field.options\<close>: on the sample board, whose
  field \<^verbatim>\<open>Status\<close> carries options none of which has the empty name, the call does not
  throw \<^verbatim>\<open>Option ... not found\<close> but returns the field with no option id.
\<close>

theorem findProjectFields_empty_option_name:
  "node_options status_field =
     Some [\<lparr>option_id = ''O1'', option_name = ''Todo''\<rparr>, \<lparr>option_id = ''O2'', option_name = ''Done''\<rparr>] \<and>
   List.find (\<lambda>opt. option_name opt = '''')
     [\<lparr>option_id = ''O1'', option_name = ''Todo''\<rparr>, \<lparr>option_id = ''O2'', option_name = ''Done''\<rparr>] = None \<and>
   fst (findProjectFields github_service ''P1'' ''Status'' (Some '''')
          \<lparr>world = sample_github, out = []\<rparr>) =
     Inr \<lparr>fieldId = Some ''F1'', optionId = None, field = status_field\<rparr> \<and>
   fst (findProjectFields github_service ''P1'' ''Status'' (Some '''')
          \<lparr>world = sample_github, out = []\<rparr>) \<noteq> Inl (option_not_found (Some '''') ''Status'')"
proof -
  have fetched: "findProjectFields github_service ''P1'' ''Status'' (Some '''')
          \<lparr>world = sample_github, out = []\<rparr> =
        select_field [ProjectV2Field ''F0'' ''Title'' ''TEXT'', OtherFieldNode, status_field,
                      ProjectV2Field ''F2'' ''End date'' ''DATE''] ''P1'' ''Status'' (Some '''')
          \<lparr>world = answered sample_github, out = []\<rparr>"
    by (rule findProjectFields_fetched [OF sample_fetch sample_node sample_nodes])
  have falsy: "\<not> (truthy (Some '''') \<and> node_options status_field \<noteq> None)"
    by (simp add: truthy_def)
  have "fst (findProjectFields github_service ''P1'' ''Status'' (Some '''')
          \<lparr>world = sample_github, out = []\<rparr>) =
     Inr \<lparr>fieldId = Some ''F1'', optionId = None, field = status_field\<rparr>"
    unfolding fetched select_field_no_option [OF sample_find(1) falsy]
    by (simp only: status_field_simps fst_conv)
  with status_field_simps(3) sample_options(3) show ?thesis
    by simp
qed

text \<open>
  C4, amended. Let the query be answered with the field list \<open>fl\<close>, whose first field
  named \<^verbatim>\<open>fieldName\<close> is \<open>fld\<close>. When the option name is a non-empty string and \<open>fld\<close>
  carries options, \<^verbatim>\<open>findProjectFields\<close> throws \<^verbatim>\<open>Option ... not found\<close> exactly when
  no option of \<open>fld\<close> has that name, and otherwise returns the id of the first option
  with that name. When \<open>fld\<close> has no options, or no option name is passed, or the one
  passed is the empty string, the call does not fail and returns no option id.
\<close>

theorem findProjectFields_option:
  assumes "withRetry (graphql_PROJECT_FIELDS octokit 50 projectId)
             (labelled ''finding project fields'') s = (Inr result, s1)"
    and "node result = Some n" and "fields_nodes n = Some fl"
    and "List.find (\<lambda>f. node_name f = Some fieldName) fl = Some fld"
  shows "(\<forall>(name::string) opts. name \<noteq> [] \<and> node_options fld = Some opts \<longrightarrow>
            (fst (findProjectFields octokit projectId fieldName (Some name) s) =
               Inl (option_not_found (Some name) fieldName) \<longleftrightarrow>
             List.find (\<lambda>opt. option_name opt = name) opts = None) \<and>
            (\<forall>opt. List.find (\<lambda>opt. option_name opt = name) opts = Some opt \<longrightarrow>
               findProjectFields octokit projectId fieldName (Some name) s =
                 (Inr \<lparr>fieldId = node_id fld, optionId = Some (option_id opt), field = fld\<rparr>,
                  core_info (found_field_message fieldName fld (Some name) (Some (option_id opt)))
                    s1))) \<and>
         (node_options fld = None \<or> optionName = None \<or> optionName = Some [] \<longrightarrow>
            findProjectFields octokit projectId fieldName optionName s =
              (Inr \<lparr>fieldId = node_id fld, optionId = None, field = fld\<rparr>,
               core_info (found_field_message fieldName fld optionName None) s1))"
proof (intro conjI allI impI)
  fix name :: string and opts
  assume a: "name \<noteq> [] \<and> node_options fld = Some opts"
  show "fst (findProjectFields octokit projectId fieldName (Some name) s) =
               Inl (option_not_found (Some name) fieldName) \<longleftrightarrow>
             List.find (\<lambda>opt. option_name opt = name) opts = None"
    unfolding findProjectFields_fetched [OF assms(1-3)]
    using a assms(4) by (simp add: select_field_option split: option.splits)
next
  fix name :: string and opts opt
  assume a: "name \<noteq> [] \<and> node_options fld = Some opts"
    and b: "List.find (\<lambda>opt. option_name opt = name) opts = Some opt"
  show "findProjectFields octokit projectId fieldName (Some name) s =
                 (Inr \<lparr>fieldId = node_id fld, optionId = Some (option_id opt), field = fld\<rparr>,
                  core_info (found_field_message fieldName fld (Some name) (Some (option_id opt)))
                    s1)"
    unfolding findProjectFields_fetched [OF assms(1-3)]
    using a b assms(4) by (simp add: select_field_option)
next
  assume "node_options fld = None \<or> optionName = None \<or> optionName = Some []"
  then have "\<not> (truthy optionName \<and> node_options fld \<noteq> None)"
    by (auto simp: truthy_def)
  then show "findProjectFields octokit projectId fieldName optionName s =
              (Inr \<lparr>fieldId = node_id fld, optionId = None, field = fld\<rparr>,
               core_info (found_field_message fieldName fld optionName None) s1)"
    unfolding findProjectFields_fetched [OF assms(1-3)]
    using assms(4) by (simp add: select_field_no_option)
qed

theorem findProjectFields_option_witness:
  "findProjectFields github_service ''P1'' ''Status'' (Some ''Done'')
     \<lparr>world = sample_github, out = []\<rparr> =
     (Inr \<lparr>fieldId = Some ''F1'', optionId = Some ''O2'', field = status_field\<rparr>,
      core_info (found_field_message ''Status'' status_field (Some ''Done'') (Some ''O2''))
        \<lparr>world = answered sample_github, out = []\<rparr>) \<and>
   fst (findProjectFields github_service ''P1'' ''Status'' (Some ''Doing'')
          \<lparr>world = sample_github, out = []\<rparr>) = Inl (option_not_found (Some ''Doing'') ''Status'') \<and>
   findProjectFields github_service ''P1'' ''End date'' (Some ''Done'')
     \<lparr>world = sample_github, out = []\<rparr> =
     (Inr \<lparr>fieldId = Some ''F2'', optionId = None, field = ProjectV2Field ''F2'' ''End date'' ''DATE''\<rparr>,
      core_info (found_field_message ''End date'' (ProjectV2Field ''F2'' ''End date'' ''DATE'')
                   (Some ''Done'') None)
        \<lparr>world = answered sample_github, out = []\<rparr>)"
proof -
  note status = findProjectFields_option [OF sample_fetch sample_node sample_nodes sample_find(1),
      where optionName = None]
  note date = findProjectFields_option [OF sample_fetch sample_node sample_nodes sample_find(3),
      where optionName = "Some ''Done''"]
  have ne: "''Done'' \<noteq> []" "''Doing'' \<noteq> []" by simp_all
  have one: "findProjectFields github_service ''P1'' ''Status'' (Some ''Done'')
     \<lparr>world = sample_github, out = []\<rparr> =
     (Inr \<lparr>fieldId = Some ''F1'', optionId = Some ''O2'', field = status_field\<rparr>,
      core_info (found_field_message ''Status'' status_field (Some ''Done'') (Some ''O2''))
        \<lparr>world = answered sample_github, out = []\<rparr>)"
    using status [THEN conjunct1, rule_format, OF conjI, OF ne(1) status_field_simps(3),
        THEN conjunct2, rule_format, OF sample_options(1)]
    by simp
  have two: "fst (findProjectFields github_service ''P1'' ''Status'' (Some ''Doing'')
          \<lparr>world = sample_github, out = []\<rparr>) = Inl (option_not_found (Some ''Doing'') ''Status'')"
    using status [THEN conjunct1, rule_format, OF conjI, OF ne(2) status_field_simps(3),
        THEN conjunct1] sample_options(2)
    by blast
  have three: "findProjectFields github_service ''P1'' ''End date'' (Some ''Done'')
     \<lparr>world = sample_github, out = []\<rparr> =
     (Inr \<lparr>fieldId = Some ''F2'', optionId = None, field = ProjectV2Field ''F2'' ''End date'' ''DATE''\<rparr>,
      core_info (found_field_message ''End date'' (ProjectV2Field ''F2'' ''End date'' ''DATE'')
                   (Some ''Done'') None)
        \<lparr>world = answered sample_github, out = []\<rparr>)"
    using date [THEN conjunct2] by simp
  from one two three show ?thesis by blast
qed

section \<open>Properties of extractIssueFromBranch\<close>

lemma replace_first_prefix: "replace_first (pat @ rest) pat rep = rep @ rest"
proof (cases pat)
  case Nil
  then show ?thesis by (cases rest) simp_all
next
  case (Cons p ps)
  then show ?thesis by simp
qed

lemma prefix_of_longer:
  assumes "prefix pat (xs @ ys)" and "length pat \<le> length xs"
  shows "prefix pat xs"
proof -
  from assms(1) obtain zs where "xs @ ys = pat @ zs" by (auto simp: prefix_def)
  then have "take (length pat) (xs @ ys) = pat" by simp
  with assms(2) have "take (length pat) xs = pat" by simp
  then show ?thesis by (metis take_is_prefix)
qed

lemma replace_first_step:
  "\<not> prefix pat (c # cs) \<Longrightarrow> replace_first (c # cs) pat rep = c # replace_first cs pat rep"
  by simp

lemma replace_first_inner:
  assumes "pat \<noteq> []" and "\<not> sublist pat (pre @ butlast pat)"
  shows "replace_first (pre @ pat @ post) pat rep = pre @ rep @ post"
  using assms(2)
proof (induction pre)
  case Nil
  show ?case by (simp add: replace_first_prefix)
next
  case (Cons c pre)
  have split: "(c # pre) @ pat @ post = ((c # pre) @ butlast pat) @ (last pat # post)"
    using assms(1) by simp
  have np: "\<not> prefix pat (c # (pre @ pat @ post))"
  proof
    assume "prefix pat (c # (pre @ pat @ post))"
    then have "prefix pat ((c # pre) @ pat @ post)" by simp
    then have "prefix pat (((c # pre) @ butlast pat) @ (last pat # post))"
      by (simp only: split)
    moreover have "length pat \<le> length ((c # pre) @ butlast pat)"
      by simp
    ultimately have "prefix pat ((c # pre) @ butlast pat)"
      by (rule prefix_of_longer)
    then have "sublist pat ((c # pre) @ butlast pat)"
      by (rule prefix_imp_sublist)
    with Cons.prems show False by blast
  qed
  have "sublist pat (pre @ butlast pat) \<Longrightarrow> sublist pat ((c # pre) @ butlast pat)"
    by (simp add: sublist_Cons_right)
  with Cons.prems have "\<not> sublist pat (pre @ butlast pat)" by blast
  then have IH: "replace_first (pre @ pat @ post) pat rep = pre @ rep @ post"
    by (rule Cons.IH)
  have "replace_first ((c # pre) @ pat @ post) pat rep =
      replace_first (c # (pre @ pat @ post)) pat rep" by simp
  also have "\<dots> = c # replace_first (pre @ pat @ post) pat rep"
    using np by (rule replace_first_step)
  finally show ?case by (simp add: IH)
qed

lemma replace_first_absent: "\<not> sublist pat s \<Longrightarrow> replace_first s pat rep = s"
proof (induction s)
  case Nil
  have "pat \<noteq> []"
  proof
    assume "pat = []"
    then have "sublist pat []" by simp
    with Nil show False by (rule notE)
  qed
  then show ?case by simp
next
  case (Cons c cs)
  have np: "\<not> prefix pat (c # cs)"
  proof
    assume "prefix pat (c # cs)"
    then have "sublist pat (c # cs)" by (rule prefix_imp_sublist)
    with Cons.prems show False by (rule notE)
  qed
  have "\<not> sublist pat cs"
  proof
    assume "sublist pat cs"
    then have "sublist pat (c # cs)" by (simp add: sublist_Cons_right)
    with Cons.prems show False by (rule notE)
  qed
  then have "replace_first cs pat rep = cs" by (rule Cons.IH)
  with np show ?case by (simp only: replace_first.simps if_False)
qed

lemmas extract_eval =
  extractIssueFromBranch_def RegExp_def compile_def close_frame_def cleanBranch_def capture_def
  reset_def truthy_def at_index_def parseInt_def Let_def is_digit_def is_white_space_def
  digits_value_def digit_value_def digits_pattern_def word_pattern_def slash_pattern_def
  no_engine_def show_number_def

text \<open>
  C7. With the pattern \<^verbatim>\<open>issue-(\d+)\<close>, whatever the rest of the engine and the state:
  the branch \<^verbatim>\<open>refs/heads/issue-42-fix\<close> gives 42, the branch \<^verbatim>\<open>issue-42-fix\<close> gives 42,
  and the branch \<^verbatim>\<open>main\<close> gives \<^verbatim>\<open>null\<close>.
\<close>

theorem extractIssueFromBranch_examples:
  "fst (extractIssueFromBranch (RegExp rest) ''refs/heads/issue-42-fix'' digits_pattern s) =
     Inr (Some (Num 42)) \<and>
   fst (extractIssueFromBranch (RegExp rest) ''issue-42-fix'' digits_pattern s) =
     Inr (Some (Num 42)) \<and>
   fst (extractIssueFromBranch (RegExp rest) ''main'' digits_pattern s) = Inr None"
  by (simp add: extract_eval)

text \<open>
  C8. With any engine: when the pattern matches the cleaned branch name and the first
  capture group is a non-empty text that \<^verbatim>\<open>parseInt\<close> cannot read, the function neither
  throws nor returns \<^verbatim>\<open>null\<close>; it returns \<^verbatim>\<open>NaN\<close>, and logs it as an extracted issue.
  The pattern \<^verbatim>\<open>issue-(\w+)\<close> on the branch \<^verbatim>\<open>issue-abc\<close> is such a case.
\<close>

theorem extractIssueFromBranch_not_numeric:
  assumes "engine regex = Inr regexPattern"
    and "regexPattern (cleanBranch branch) = Some m"
    and "at_index m 1 = Some captured" and "captured \<noteq> []" and "parseInt captured = NaN"
  shows "extractIssueFromBranch engine branch regex s =
           (Inr (Some NaN),
            core_info (check_mark @ '' Extracted issue #NaN from branch '' @ apostrophe @
                       cleanBranch branch @ apostrophe) s)"
  using assms by (simp add: extractIssueFromBranch_def Let_def truthy_def show_number_def)

theorem extractIssueFromBranch_not_numeric_witness:
  "extractIssueFromBranch (RegExp no_engine) ''issue-abc'' word_pattern \<lparr>world = (), out = []\<rparr> =
     (Inr (Some NaN),
      core_info (check_mark @ '' Extracted issue #NaN from branch '' @ apostrophe @
                 cleanBranch ''issue-abc'' @ apostrophe) \<lparr>world = (), out = []\<rparr>)"
proof -
  have a: "RegExp no_engine word_pattern = Inr (projr (RegExp no_engine word_pattern))"
    by (simp add: extract_eval)
  have b: "projr (RegExp no_engine word_pattern) (cleanBranch ''issue-abc'') =
      Some [Some ''issue-abc'', Some ''abc'']"
    by (simp add: extract_eval)
  have c: "at_index [Some ''issue-abc'', Some ''abc''] 1 = Some ''abc''"
    by (simp add: at_index_def)
  have d: "''abc'' \<noteq> []" by simp
  have e: "parseInt ''abc'' = NaN"
    by (simp add: extract_eval)
  from extractIssueFromBranch_not_numeric [where engine = "RegExp no_engine"
      and regex = word_pattern and regexPattern = "projr (RegExp no_engine word_pattern)"
      and branch = "''issue-abc''" and m = "[Some ''issue-abc'', Some ''abc'']"
      and captured = "''abc''" and s = "\<lparr>world = (), out = []\<rparr>", OF a b c d e]
  show ?thesis .
qed

text \<open>
  What \<^verbatim>\<open>branch.replace('refs/heads/', '')\<close> computes. The first occurrence of
  \<^verbatim>\<open>refs/heads/\<close> is removed, wherever it stands: a leading \<^verbatim>\<open>refs/heads/\<close> is stripped; a
  branch name without the text is left as it is; and when the first occurrence follows
  \<open>pre\<close> (no occurrence starts inside \<open>pre\<close>), what is left is \<open>pre\<close> and what follows
  the occurrence. The result of the function depends on the branch name only through that
  cleaned text, with any engine.
\<close>

lemma cleanBranch_removes_first_occurrence:
  "cleanBranch (''refs/heads/'' @ rest) = rest \<and>
   (\<not> sublist ''refs/heads/'' branch \<longrightarrow> cleanBranch branch = branch) \<and>
   (\<not> sublist ''refs/heads/'' (pre @ ''refs/heads'') \<longrightarrow>
      cleanBranch (pre @ ''refs/heads/'' @ post) = pre @ post) \<and>
   (\<forall>other. cleanBranch other = cleanBranch branch \<longrightarrow>
      extractIssueFromBranch engine other regex s = extractIssueFromBranch engine branch regex s)"
proof (intro conjI allI impI)
  show "cleanBranch (''refs/heads/'' @ rest) = rest"
    unfolding cleanBranch_def by (simp only: replace_first_prefix append_Nil)
next
  assume "\<not> sublist ''refs/heads/'' branch"
  then show "cleanBranch branch = branch"
    unfolding cleanBranch_def by (rule replace_first_absent)
next
  assume "\<not> sublist ''refs/heads/'' (pre @ ''refs/heads'')"
  then have "\<not> sublist ''refs/heads/'' (pre @ butlast ''refs/heads/'')" by simp
  from replace_first_inner [OF _ this, of post "[]"]
  show "cleanBranch (pre @ ''refs/heads/'' @ post) = pre @ post"
    unfolding cleanBranch_def by simp
next
  fix other
  assume same: "cleanBranch other = cleanBranch branch"
  show "extractIssueFromBranch engine other regex s =
      extractIssueFromBranch engine branch regex s"
    unfolding extractIssueFromBranch_def same by (rule refl)
qed

lemma cleanBranch_removes_first_occurrence_examples:
  "cleanBranch ''refs/heads/main'' = ''main'' \<and>
   cleanBranch ''main'' = ''main'' \<and>
   cleanBranch ''x/refs/heads/y'' = ''x/y'' \<and>
   extractIssueFromBranch (RegExp no_engine) ''refs/heads/issue-7'' digits_pattern
     \<lparr>world = (), out = []\<rparr> =
   extractIssueFromBranch (RegExp no_engine) ''issue-7'' digits_pattern \<lparr>world = (), out = []\<rparr>"
proof -
  note inst = cleanBranch_removes_first_occurrence [where engine = "RegExp no_engine"
      and regex = digits_pattern and s = "\<lparr>world = (), out = []\<rparr>"]
  have one: "cleanBranch ''refs/heads/main'' = ''main''"
    using inst [where rest = "''main''", THEN conjunct1] by simp
  have absent: "\<not> sublist ''refs/heads/'' ''main''"
    by (simp add: sublist_Cons_right)
  have two: "cleanBranch ''main'' = ''main''"
    using inst [where branch = "''main''", THEN conjunct2, THEN conjunct1] absent by blast
  have before: "\<not> sublist ''refs/heads/'' (''x/'' @ ''refs/heads'')"
    by (simp add: sublist_Cons_right)
  have three: "cleanBranch ''x/refs/heads/y'' = ''x/y''"
    using inst [where pre = "''x/''" and post = "''y''", THEN conjunct2, THEN conjunct2,
        THEN conjunct1] before by simp
  have same: "cleanBranch ''refs/heads/issue-7'' = cleanBranch ''issue-7''"
    by (simp add: cleanBranch_def)
  have four: "extractIssueFromBranch (RegExp no_engine) ''refs/heads/issue-7'' digits_pattern
     \<lparr>world = (), out = []\<rparr> =
   extractIssueFromBranch (RegExp no_engine) ''issue-7'' digits_pattern \<lparr>world = (), out = []\<rparr>"
    using inst [where branch = "''issue-7''", THEN conjunct2, THEN conjunct2, THEN conjunct2,
        rule_format, OF same] .
  from one two three four show ?thesis by blast
qed

text \<open>
  C6. The function is to strip a leading \<^verbatim>\<open>refs/heads/\<close> and to match every other branch
  name as it is given, in particular one in which \<^verbatim>\<open>refs/heads/\<close> stands only after the
  start. The code does not: \<^verbatim>\<open>replace\<close> is not anchored at the start. In the branch name
  \<^verbatim>\<open>feature/refs/heads/issue-42\<close> the text stands only after the start, yet it is
  removed, and what is matched is \<^verbatim>\<open>feature/issue-42\<close>. The pattern \<^verbatim>\<open>e/issue-(\d+)\<close>
  shows the difference: the function returns 42, while the same pattern does not match
  the branch name as it was given, for which the result would be \<^verbatim>\<open>null\<close>.
\<close>

theorem cleanBranch_inner_occurrence:
  "cleanBranch ''feature/refs/heads/issue-42'' = ''feature/issue-42'' \<and>
   fst (extractIssueFromBranch (RegExp no_engine) ''feature/refs/heads/issue-42'' slash_pattern
          \<lparr>world = (), out = []\<rparr>) = Inr (Some (Num 42)) \<and>
   map_sum id (\<lambda>regexPattern. regexPattern ''feature/refs/heads/issue-42'')
     (RegExp no_engine slash_pattern) = Inr None"
  by (simp add: extract_eval)

end
